theory Spec2Isabelle
  imports Complex_Main "HOL-Library.Word"
begin

unbundle bit_operations_syntax

section \<open>Travel\_Agent.py: a shallow embedding\<close>

text \<open>
  The program is one Streamlit script, \<^verbatim>\<open>Travel_Agent.py\<close>. Streamlit executes the
  script from its first line to its last for every user interaction, each time in a
  fresh module namespace; only \<^verbatim>\<open>st.session_state\<close> survives from one execution to
  the next. The embedding follows that shape:

  \<^item> one execution of the script is the function \<open>script_run\<close>; the values the input
    widgets return in that execution are the record \<open>ui\<close>;
  \<^item> everything outside the script that it reads or calls (environment variables, the
    research agent, the chat model, the clock, \<^verbatim>\<open>uuid.uuid4\<close>, the PDF renderers, Python's
    \<^verbatim>\<open>float\<close>) is a field of the record \<open>world\<close>;
  \<^item> the state the script changes is the record \<open>run_state\<close>: the session state, the
    module-level variable \<^verbatim>\<open>llm\<close>, the model completions requested so far, the files
    written, and the download buttons offered;
  \<^item> a Python exception is a value \<open>Inl e\<close> of a sum type; every statement of the
    script after a raise is skipped, as in Python.

  Calls that only draw on the page (\<^verbatim>\<open>st.markdown\<close>, \<^verbatim>\<open>st.write\<close>, \<^verbatim>\<open>st.info\<close>, ...) change
  none of these values and are left out, and so is the read-only history panel at the
  end of the script (lines 948-1000).

  A Python \<^verbatim>\<open>str\<close> is the \<open>string\<close> of its UTF-8 encoding: a character of ASCII is one
  \<open>char\<close>, any other character the two to four bytes of its encoding. Concatenation,
  \<^verbatim>\<open>join\<close>, the replacement of an ASCII character, \<^verbatim>\<open>split\<close> at an ASCII character and
  the search for an ASCII text (\<^verbatim>\<open>in\<close>) are the same on the encoding as on the
  characters, since a byte of ASCII never occurs inside the encoding of another
  character. A slice \<^verbatim>\<open>s[:n]\<close> counts characters, not bytes: it is \<open>str_take\<close>.
  Python's \<^verbatim>\<open>str.lower\<close> follows the Unicode tables (it turns the Kelvin sign into \<^verbatim>\<open>k\<close>,
  for one); like \<^verbatim>\<open>float\<close> it is not part of the script and is a field of \<open>world\<close>. A
  Python \<^verbatim>\<open>float\<close> literal is the real number it denotes; the script stores and returns
  coordinates and never computes with them.
\<close>

subsection \<open>Python values\<close>

datatype py_error =
    NameError string
  | KeyError string
  | TypeError
  | ValueError
  | ImportError
  | OverflowError
  | FileNotFoundError string
  | ServiceError string

definition rupee :: string where
  "rupee = [CHR 0xE2, CHR 0x82, CHR 0xB9]"

definition digit_char :: "nat \<Rightarrow> char" where
  "digit_char d = ''0123456789'' ! d"

fun digits :: "nat \<Rightarrow> string" where
  "digits n = (if n < 10 then [digit_char n] else digits (n div 10) @ [digit_char (n mod 10)])"

declare digits.simps [simp del]

definition str_int :: "int \<Rightarrow> string" where
  "str_int i = (if i < 0 then CHR ''-'' # digits (nat (- i)) else digits (nat i))"

fun join :: "string \<Rightarrow> string list \<Rightarrow> string" where
  "join sep [] = []"
| "join sep [x] = x"
| "join sep (x # y # ys) = x @ sep @ join sep (y # ys)"

text \<open>\<^verbatim>\<open>str\<close> of a list of strings, as an f-string renders it. Python's \<^verbatim>\<open>repr\<close> of a string
  is the string between single quotes when it holds no quote, no backslash and no
  unprintable character, which is the case of every option label of the script.\<close>

definition str_list :: "string list \<Rightarrow> string" where
  "str_list xs = ''['' @ join '', '' (map (\<lambda>x. [CHR 0x27] @ x @ [CHR 0x27]) xs) @ '']''"

definition replace_char :: "char \<Rightarrow> string \<Rightarrow> string \<Rightarrow> string" where
  "replace_char c r s = concat (map (\<lambda>x. if x = c then r else [x]) s)"

text \<open>Lower case on ASCII letters: what \<^verbatim>\<open>str.lower\<close> does to a text of ASCII. It serves
  as the \<^verbatim>\<open>str.lower\<close> of the example world, whose destinations are ASCII; the script
  itself is modelled with the \<open>py_lower\<close> of the world.\<close>

definition lower_char :: "char \<Rightarrow> char" where
  "lower_char c =
     (case map_of (zip ''ABCDEFGHIJKLMNOPQRSTUVWXYZ'' ''abcdefghijklmnopqrstuvwxyz'') c of
        None \<Rightarrow> c
      | Some l \<Rightarrow> l)"

definition ascii_lower :: "string \<Rightarrow> string" where
  "ascii_lower s = map lower_char s"

text \<open>\<^verbatim>\<open>s[:n]\<close>, the first \<open>n\<close> characters of a text: a byte \<open>10xxxxxx\<close> continues the
  character before it, every other byte starts one.\<close>

definition is_continuation :: "char \<Rightarrow> bool" where
  "is_continuation c = (128 \<le> (of_char c :: nat) \<and> (of_char c :: nat) < 192)"

fun str_take :: "nat \<Rightarrow> string \<Rightarrow> string" where
  "str_take n [] = []"
| "str_take n (c # cs) =
     (if is_continuation c then c # str_take n cs
      else (case n of 0 \<Rightarrow> [] | Suc m \<Rightarrow> c # str_take m cs))"

fun starts_with :: "string \<Rightarrow> string \<Rightarrow> bool" where
  "starts_with [] t = True"
| "starts_with (k # ks) [] = False"
| "starts_with (k # ks) (c # cs) = (k = c \<and> starts_with ks cs)"

text \<open>\<^verbatim>\<open>key in text\<close> on strings: \<open>key\<close> occurs in \<open>text\<close> as a contiguous piece.\<close>

fun str_contains :: "string \<Rightarrow> string \<Rightarrow> bool" where
  "str_contains key [] = (key = [])"
| "str_contains key (c # cs) = (starts_with key (c # cs) \<or> str_contains key cs)"

definition is_space :: "char \<Rightarrow> bool" where
  "is_space c = (c \<in> set [CHR 0x09, CHR 0x0A, CHR 0x0B, CHR 0x0C, CHR 0x0D,
                            CHR 0x1C, CHR 0x1D, CHR 0x1E, CHR 0x1F, CHR 0x20])"

text \<open>\<^verbatim>\<open>s.strip()\<close>, for the white space of ASCII. Python strips the white space outside
  ASCII too; the script strips only texts whose pieces it hands to \<^verbatim>\<open>float\<close>, which skips
  white space of either kind at both ends of its argument.\<close>

definition str_strip :: "string \<Rightarrow> string" where
  "str_strip s = rev (dropWhile is_space (rev (dropWhile is_space s)))"

text \<open>\<^verbatim>\<open>s.split(c)\<close> for a separator of one character: the pieces between its occurrences.\<close>

fun str_split :: "char \<Rightarrow> string \<Rightarrow> string list" where
  "str_split sep [] = [[]]"
| "str_split sep (c # cs) =
     (if c = sep then [] # str_split sep cs
      else (c # hd (str_split sep cs)) # tl (str_split sep cs))"

subsection \<open>The data of the script\<close>

text \<open>\<^verbatim>\<open>st.session_state.current_trip_data\<close> (lines 160-165).\<close>

record trip_data =
  destination :: string
  num_days :: int
  budget :: int
  language :: string

text \<open>The \<^verbatim>\<open>"preferences"\<close> dictionary of a history entry (lines 578-588).\<close>

record preferences =
  accommodation :: string
  selected_accommodation :: string
  activities :: string
  selected_activities :: "string list"
  dining :: string
  selected_dining :: "string list"
  transportation :: string
  selected_transport :: string
  special_requests :: string

text \<open>An entry of \<^verbatim>\<open>st.session_state.trip_history\<close> (lines 570-590).\<close>

record trip_record =
  trip_id :: string
  trip_destination :: string
  trip_days :: int
  trip_budget :: int
  trip_language :: string
  trip_itinerary :: string
  trip_research :: string
  trip_preferences :: preferences
  trip_date :: string

text \<open>\<^verbatim>\<open>st.session_state\<close> after lines 40-47 have run.\<close>

record session_state =
  trip_history :: "trip_record list"
  research_results :: "string option"
  current_trip_data :: "trip_data option"
  show_preferences :: bool

definition new_session :: session_state where
  "new_session = \<lparr>trip_history = [], research_results = None,
                   current_trip_data = None, show_preferences = False\<rparr>"

text \<open>\<^verbatim>\<open>ChatOpenAI(model=..., openai_api_key=..., openai_api_base=...)\<close>.\<close>

record chat_client =
  model :: string
  openai_api_key :: "string option"
  openai_api_base :: string

definition ChatOpenAI :: "string option \<Rightarrow> chat_client" where
  "ChatOpenAI token = \<lparr>model = ''gpt-4o-mini'', openai_api_key = token,
                        openai_api_base = ''https://models.inference.ai.azure.com''\<rparr>"

type_synonym coords = "real \<times> real"

text \<open>A reportlab flowable of the \<^verbatim>\<open>story\<close> (lines 696-728): a paragraph with its style,
  or a spacer.\<close>

datatype flowable = Paragraph string string | Spacer nat nat

text \<open>An \<^verbatim>\<open>ics.Event\<close> with the four attributes the script sets (lines 802-806). A date
  is its proleptic Gregorian ordinal (\<^verbatim>\<open>date.toordinal()\<close>), a \<^verbatim>\<open>timedelta\<close> its length in
  seconds.\<close>

record event =
  e_name :: string
  e_begin :: int
  e_description :: string
  e_duration :: int

text \<open>One \<^verbatim>\<open>st.download_button\<close>: what the page offers for download.\<close>

record download =
  label :: string
  data :: string
  file_name :: string
  mime :: string

text \<open>
  What the script reads and calls outside itself. A call that raises returns \<open>Inl\<close>.
  \<open>researcher\<close> is \<^verbatim>\<open>researcher.invoke({"input": research_input})["output"]\<close>, where
  \<^verbatim>\<open>research_input\<close> is assembled from the four form values (lines 84-156);
  \<open>chat\<close> is \<^verbatim>\<open>client.invoke(prompt).content\<close> (one execution asks no question twice,
  but for the coordinate fallback when the map fails; executions of a session may each
  have a world of their own); \<open>uuid4\<close> and \<open>strftime_now\<close> take the source
  line of the call, since two calls of one execution may return different values;
  \<open>weasyprint\<close> and \<open>reportlab\<close> return the bytes of the file they write;
  \<open>py_lower\<close> is Python's \<^verbatim>\<open>str.lower\<close>;
  \<open>py_float\<close> is Python's \<^verbatim>\<open>float\<close> on a string (\<open>None\<close> where it raises \<^verbatim>\<open>ValueError\<close>;
  \<^verbatim>\<open>inf\<close> and \<^verbatim>\<open>nan\<close>, which it also returns, stand for some real, and no theorem depends
  on which);
  \<open>ics_available\<close> says whether \<^verbatim>\<open>from ics import Calendar, Event\<close> succeeds (line 795), and
  \<open>calendar_str\<close> is \<^verbatim>\<open>str(cal)\<close> for a calendar of the given events;
  \<open>folium_error\<close> is the exception, if any, that drawing the map raises.
\<close>

record world =
  github_token :: "string option"
  serp_api_key :: "string option"
  researcher :: "trip_data \<Rightarrow> py_error + string"
  chat :: "chat_client \<Rightarrow> string \<Rightarrow> py_error + string"
  uuid4 :: "nat \<Rightarrow> 128 word"
  strftime_now :: "nat \<Rightarrow> string"
  today :: int
  weasyprint :: "string \<Rightarrow> string \<Rightarrow> py_error + string"
  reportlab :: "string \<Rightarrow> flowable list \<Rightarrow> py_error + string"
  ics_available :: bool
  calendar_str :: "event list \<Rightarrow> string"
  MAP_AVAILABLE :: bool
  folium_error :: "py_error option"
  py_float :: "string \<Rightarrow> real option"
  py_lower :: "string \<Rightarrow> string"

text \<open>The values the widgets return in one execution of the script: the four form
  inputs (lines 56-59), the buttons, and for each category the preference label and
  the selection among the generated options.\<close>

record ui =
  destination_input :: string
  num_days_input :: int
  budget_input :: int
  language_input :: string
  generate_clicked :: bool
  accommodation_pref :: string
  accommodation_selection :: string
  activity_pref :: string
  activity_selection :: "string list"
  dining_pref :: string
  dining_selection :: "string list"
  transport_pref :: string
  transport_selection :: string
  special_requests_input :: string
  itinerary_clicked :: bool
  pdf_clicked :: bool
  calendar_clicked :: bool

text \<open>The state one execution of the script works on. \<open>llm\<close> is the module-level
  variable of that name: \<open>None\<close> while it is unbound.\<close>

record run_state =
  session :: session_state
  llm :: "chat_client option"
  calls :: "(chat_client \<times> string) list"
  files :: "string \<Rightarrow> string option"
  downloads :: "download list"

subsection \<open>Option lists and texts of the script\<close>

text \<open>The preference labels of the four categories and their descriptions (lines 187-203,
  269-285, 346-362, 426-442). A dictionary is the list of its items in the order of the
  literal; the keys of each are distinct.\<close>

definition accommodation_options :: "string list" where
  \<open>accommodation_options = [
    ''Luxury Hotels ('' @ rupee @ ''15,000-40,000+ per night)'',
    ''Mid-range Hotels ('' @ rupee @ ''4,000-15,000 per night)'',
    ''Budget Hotels/Hostels ('' @ rupee @ ''800-4,000 per night)'',
    ''Local Guesthouses ('' @ rupee @ ''1,500-6,000 per night)'',
    ''Vacation Rentals ('' @ rupee @ ''2,500-20,000 per night)'',
    ''No Preference'']\<close>

definition accommodation_descriptions :: "(string \<times> string) list" where
  \<open>accommodation_descriptions = [
    (''Luxury Hotels ('' @ rupee @ ''15,000-40,000+ per night)'',
      ''Premium hotels with high-end amenities, concierge services, and prime locations''),
    (''Mid-range Hotels ('' @ rupee @ ''4,000-15,000 per night)'',
      ''Comfortable hotels with good amenities, central locations, and reliable service''),
    (''Budget Hotels/Hostels ('' @ rupee @ ''800-4,000 per night)'',
      ''Basic accommodations, shared facilities, perfect for budget travelers''),
    (''Local Guesthouses ('' @ rupee @ ''1,500-6,000 per night)'',
      ''Authentic local experience, family-run establishments, cultural immersion''),
    (''Vacation Rentals ('' @ rupee @ ''2,500-20,000 per night)'',
      ''Apartments, houses, or condos with kitchen facilities and more space''),
    (''No Preference'',
      ''Let the AI choose the best option based on your budget and destination'')]\<close>

definition activity_options :: "string list" where
  \<open>activity_options = [
    ''Adventure & Sports ('' @ rupee @ ''2,000-10,000 per activity)'',
    ''Cultural & Historical ('' @ rupee @ ''500-3,000 per site)'',
    ''Relaxation & Wellness ('' @ rupee @ ''1,500-8,000 per session)'',
    ''Shopping & Entertainment ('' @ rupee @ ''1,000-5,000 per experience)'',
    ''Nature & Wildlife ('' @ rupee @ ''1,000-6,000 per experience)'',
    ''Mix of Everything'']\<close>

definition activity_descriptions :: "(string \<times> string) list" where
  \<open>activity_descriptions = [
    (''Adventure & Sports ('' @ rupee @ ''2,000-10,000 per activity)'',
      ''Hiking, water sports, extreme activities, outdoor adventures''),
    (''Cultural & Historical ('' @ rupee @ ''500-3,000 per site)'',
      ''Museums, historical sites, cultural tours, art galleries''),
    (''Relaxation & Wellness ('' @ rupee @ ''1,500-8,000 per session)'',
      ''Spas, beaches, yoga retreats, peaceful activities''),
    (''Shopping & Entertainment ('' @ rupee @ ''1,000-5,000 per experience)'',
      ''Markets, malls, nightlife, shows, entertainment venues''),
    (''Nature & Wildlife ('' @ rupee @ ''1,000-6,000 per experience)'',
      ''National parks, wildlife viewing, botanical gardens, nature trails''),
    (''Mix of Everything'',
      ''Balanced combination of different activity types'')]\<close>

definition dining_options :: "string list" where
  \<open>dining_options = [
    ''Fine Dining ('' @ rupee @ ''3,500-10,000+ per meal)'',
    ''Local Street Food ('' @ rupee @ ''200-800 per meal)'',
    ''Mix of Both ('' @ rupee @ ''800-4,000 per meal)'',
    ''Vegetarian/Vegan ('' @ rupee @ ''400-2,500 per meal)'',
    ''Budget-Friendly ('' @ rupee @ ''300-1,500 per meal)'',
    ''No Preference'']\<close>

definition dining_descriptions :: "(string \<times> string) list" where
  \<open>dining_descriptions = [
    (''Fine Dining ('' @ rupee @ ''3,500-10,000+ per meal)'',
      ''High-end restaurants, chef'' @ [CHR 0x27] @ ''s specials, gourmet experiences''),
    (''Local Street Food ('' @ rupee @ ''200-800 per meal)'',
      ''Authentic local cuisine, food markets, street vendors''),
    (''Mix of Both ('' @ rupee @ ''800-4,000 per meal)'',
      ''Combination of upscale and local dining experiences''),
    (''Vegetarian/Vegan ('' @ rupee @ ''400-2,500 per meal)'',
      ''Plant-based restaurants and vegetarian-friendly options''),
    (''Budget-Friendly ('' @ rupee @ ''300-1,500 per meal)'',
      ''Affordable restaurants, local eateries, good value meals''),
    (''No Preference'',
      ''Let the AI recommend based on local specialties and budget'')]\<close>

definition transport_options :: "string list" where
  \<open>transport_options = [
    ''Public Transport ('' @ rupee @ ''50-500 per day)'',
    ''Rental Car ('' @ rupee @ ''2,000-6,000 per day)'',
    ''Walking/Cycling ('' @ rupee @ ''200-800 per day for rentals)'',
    ''Ride-sharing/Taxi ('' @ rupee @ ''500-2,000 per trip)'',
    ''Tour Groups ('' @ rupee @ ''1,500-5,000 per day)'',
    ''No Preference'']\<close>

definition transport_descriptions :: "(string \<times> string) list" where
  \<open>transport_descriptions = [
    (''Public Transport ('' @ rupee @ ''50-500 per day)'',
      ''Buses, trains, metro - economical and authentic local experience''),
    (''Rental Car ('' @ rupee @ ''2,000-6,000 per day)'',
      ''Freedom to explore at your own pace, access to remote locations''),
    (''Walking/Cycling ('' @ rupee @ ''200-800 per day for rentals)'',
      ''Eco-friendly, great for short distances and city exploration''),
    (''Ride-sharing/Taxi ('' @ rupee @ ''500-2,000 per trip)'',
      ''Convenient door-to-door service, good for specific destinations''),
    (''Tour Groups ('' @ rupee @ ''1,500-5,000 per day)'',
      ''Organized transportation with guided experiences''),
    (''No Preference'',
      ''Mix of transportation methods based on convenience and cost'')]\<close>

text \<open>The four recommendation prompts (lines 225-251, 300-326, 377-406, 457-486), with
  the indentation and the trailing blanks of the source. \<open>research\<close> is
  \<^verbatim>\<open>st.session_state.research_results\<close>, \<open>pref\<close> the preference label of the category.\<close>

definition accommodation_search_prompt :: "trip_data \<Rightarrow> string \<Rightarrow> string \<Rightarrow> string" where
  \<open>accommodation_search_prompt td research pref = concat [
    ''\<newline>'',
    ''            IMPORTANT: Respond ONLY in '', language td, '' language. All responses must be in '', language td, ''.\<newline>'',
    ''            \<newline>'',
    ''            Based on the research results and user preference for '', pref, '' in '', destination td, '', \<newline>'',
    ''            provide exactly 3 specific accommodation recommendations in this format:\<newline>'',
    ''            \<newline>'',
    ''            **Option 1: [Hotel Name]**\<newline>'',
    ''            - Description: [Brief description and key features]\<newline>'',
    ''            - Price: '', rupee, ''[amount] per night\<newline>'',
    ''            - Location: [area/location]\<newline>'',
    ''            - Why recommended: [reason it fits preference]\<newline>'',
    ''            \<newline>'',
    ''            **Option 2: [Hotel Name]**\<newline>'',
    ''            - Description: [Brief description and key features]  \<newline>'',
    ''            - Price: '', rupee, ''[amount] per night\<newline>'',
    ''            - Location: [area/location]\<newline>'',
    ''            - Why recommended: [reason it fits preference]\<newline>'',
    ''            \<newline>'',
    ''            **Option 3: [Hotel Name]**\<newline>'',
    ''            - Description: [Brief description and key features]\<newline>'',
    ''            - Price: '', rupee, ''[amount] per night  \<newline>'',
    ''            - Location: [area/location]\<newline>'',
    ''            - Why recommended: [reason it fits preference]\<newline>'',
    ''            \<newline>'',
    ''            Research context: '', research, ''\<newline>'',
    ''            Budget: '', rupee, str_int (budget td), '' INR total for '', str_int (num_days td), '' days\<newline>'',
    ''            '']\<close>

definition activity_search_prompt :: "trip_data \<Rightarrow> string \<Rightarrow> string \<Rightarrow> string" where
  \<open>activity_search_prompt td research pref = concat [
    ''\<newline>'',
    ''            IMPORTANT: Respond ONLY in '', language td, '' language. All responses must be in '', language td, ''.\<newline>'',
    ''            \<newline>'',
    ''            Based on the research results and user preference for '', pref, '' in '', destination td, '', \<newline>'',
    ''            provide exactly 3 specific activity recommendations in this format:\<newline>'',
    ''            \<newline>'',
    ''            **Option 1: [Activity Name]**\<newline>'',
    ''            - Description: [What to expect and details]\<newline>'',
    ''            - Cost: '', rupee, ''[amount] per person\<newline>'',
    ''            - Duration: [time needed]\<newline>'',
    ''            - Why recommended: [reason it fits preference]\<newline>'',
    ''            \<newline>'',
    ''            **Option 2: [Activity Name]**  \<newline>'',
    ''            - Description: [What to expect and details]\<newline>'',
    ''            - Cost: '', rupee, ''[amount] per person\<newline>'',
    ''            - Duration: [time needed]\<newline>'',
    ''            - Why recommended: [reason it fits preference]\<newline>'',
    ''            \<newline>'',
    ''            **Option 3: [Activity Name]**\<newline>'',
    ''            - Description: [What to expect and details]\<newline>'',
    ''            - Cost: '', rupee, ''[amount] per person\<newline>'',
    ''            - Duration: [time needed]\<newline>'',
    ''            - Why recommended: [reason it fits preference]\<newline>'',
    ''            \<newline>'',
    ''            Research context: '', research, ''\<newline>'',
    ''            Budget: '', rupee, str_int (budget td), '' INR total for '', str_int (num_days td), '' days\<newline>'',
    ''            '']\<close>

definition dining_search_prompt :: "trip_data \<Rightarrow> string \<Rightarrow> string \<Rightarrow> string" where
  \<open>dining_search_prompt td research pref = concat [
    ''\<newline>'',
    ''            IMPORTANT: Respond ONLY in '', language td, '' language. All responses must be in '', language td, ''.\<newline>'',
    ''            \<newline>'',
    ''            Based on the research results and user preference for '', pref, '' in '', destination td, '', \<newline>'',
    ''            provide exactly 3 specific restaurant/dining recommendations in this format:\<newline>'',
    ''            \<newline>'',
    ''            **Option 1: [Restaurant Name]**\<newline>'',
    ''            - Cuisine: [Type of cuisine]\<newline>'',
    ''            - Specialties: [Signature dishes]\<newline>'',
    ''            - Cost: '', rupee, ''[amount] per person per meal\<newline>'',
    ''            - Location: [area/address]\<newline>'',
    ''            - Why recommended: [reason it fits preference]\<newline>'',
    ''            \<newline>'',
    ''            **Option 2: [Restaurant Name]**\<newline>'',
    ''            - Cuisine: [Type of cuisine]  \<newline>'',
    ''            - Specialties: [Signature dishes]\<newline>'',
    ''            - Cost: '', rupee, ''[amount] per person per meal\<newline>'',
    ''            - Location: [area/address]\<newline>'',
    ''            - Why recommended: [reason it fits preference]\<newline>'',
    ''            \<newline>'',
    ''            **Option 3: [Restaurant Name]**\<newline>'',
    ''            - Cuisine: [Type of cuisine]\<newline>'',
    ''            - Specialties: [Signature dishes] \<newline>'',
    ''            - Cost: '', rupee, ''[amount] per person per meal\<newline>'',
    ''            - Location: [area/address]\<newline>'',
    ''            - Why recommended: [reason it fits preference]\<newline>'',
    ''            \<newline>'',
    ''            Research context: '', research, ''\<newline>'',
    ''            Budget: '', rupee, str_int (budget td), '' INR total for '', str_int (num_days td), '' days\<newline>'',
    ''            '']\<close>

definition transport_search_prompt :: "trip_data \<Rightarrow> string \<Rightarrow> string \<Rightarrow> string" where
  \<open>transport_search_prompt td research pref = concat [
    ''\<newline>'',
    ''            IMPORTANT: Respond ONLY in '', language td, '' language. All responses must be in '', language td, ''.\<newline>'',
    ''            \<newline>'',
    ''            Based on the research results and user preference for '', pref, '' in '', destination td, '', \<newline>'',
    ''            provide exactly 3 specific transportation recommendations in this format:\<newline>'',
    ''            \<newline>'',
    ''            **Option 1: [Service Name/Type]**\<newline>'',
    ''            - Description: [Service details and availability]\<newline>'',
    ''            - Cost: '', rupee, ''[amount] per day/trip\<newline>'',
    ''            - Coverage: [Areas served and convenience]\<newline>'',
    ''            - Booking: [How to book and tips]\<newline>'',
    ''            - Why recommended: [reason it fits preference]\<newline>'',
    ''            \<newline>'',
    ''            **Option 2: [Service Name/Type]**\<newline>'',
    ''            - Description: [Service details and availability]\<newline>'',
    ''            - Cost: '', rupee, ''[amount] per day/trip  \<newline>'',
    ''            - Coverage: [Areas served and convenience]\<newline>'',
    ''            - Booking: [How to book and tips]\<newline>'',
    ''            - Why recommended: [reason it fits preference]\<newline>'',
    ''            \<newline>'',
    ''            **Option 3: [Service Name/Type]**\<newline>'',
    ''            - Description: [Service details and availability]\<newline>'',
    ''            - Cost: '', rupee, ''[amount] per day/trip\<newline>'',
    ''            - Coverage: [Areas served and convenience] \<newline>'',
    ''            - Booking: [How to book and tips]\<newline>'',
    ''            - Why recommended: [reason it fits preference]\<newline>'',
    ''            \<newline>'',
    ''            Research context: '', research, ''\<newline>'',
    ''            Budget: '', rupee, str_int (budget td), '' INR total for '', str_int (num_days td), '' days\<newline>'',
    ''            '']\<close>

text \<open>The synthesis prompt (lines 521-559).\<close>

definition planner_input :: "trip_data \<Rightarrow> string \<Rightarrow> preferences \<Rightarrow> string" where
  \<open>planner_input td research p = concat [
    ''\<newline>'',
    ''CRITICAL: Respond ONLY in '', language td, '' language. Every word of the itinerary must be in '', language td, ''.\<newline>'',
    ''\<newline>'',
    ''You are a senior travel planner. Based on the research results and user preferences, create a detailed day-wise itinerary.\<newline>'',
    ''Follow the planner instructions: Generate a detailed day-wise itinerary, quote facts from research results (do not fabricate), make it engaging and tailored to user'', [CHR 0x27], ''s budget and language.\<newline>'',
    ''\<newline>'',
    ''DESTINATION: '', destination td, ''\<newline>'',
    ''DURATION: '', str_int (num_days td), '' days\<newline>'',
    ''BUDGET: '', rupee, str_int (budget td), '' INR total\<newline>'',
    ''LANGUAGE: '', language td, '' - IMPORTANT: Use this language for ALL content\<newline>'',
    ''\<newline>'',
    ''RESEARCH RESULTS:\<newline>'',
    research, ''\<newline>'',
    ''\<newline>'',
    ''USER PREFERENCES AND SPECIFIC SELECTIONS:\<newline>'',
    ''- Accommodation Preference: '', accommodation p, ''\<newline>'',
    ''- Selected Accommodation: '', selected_accommodation p, ''\<newline>'',
    ''- Activity Preference: '', activities p, ''  \<newline>'',
    ''- Selected Activities: '', str_list (selected_activities p), ''\<newline>'',
    ''- Dining Preference: '', dining p, ''\<newline>'',
    ''- Selected Dining Options: '', str_list (selected_dining p), ''\<newline>'',
    ''- Transportation Preference: '', transportation p, ''\<newline>'',
    ''- Selected Transportation: '', selected_transport p, ''\<newline>'',
    ''- Special Requests: '', special_requests p, ''\<newline>'',
    ''\<newline>'',
    ''Please create a comprehensive itinerary that includes:\<newline>'',
    ''1. Day-by-day schedule with specific activities and timing based on user'', [CHR 0x27], ''s exact selections\<newline>'',
    ''2. Use the specific accommodation option selected by the user\<newline>'',
    ''3. Include the exact restaurants/dining options the user chose\<newline>'',
    ''4. Use the selected transportation method throughout the trip\<newline>'',
    ''5. Estimated costs within the '', rupee, str_int (budget td), '' INR total budget\<newline>'',
    ''6. Cultural tips and local customs\<newline>'',
    ''7. Emergency contacts and important information\<newline>'',
    ''\<newline>'',
    ''Format the response clearly with day headers and detailed activities. Ensure all recommendations align with their specific selections and stay within the '', rupee, str_int (budget td), '' INR budget. All prices should be in Indian Rupees (INR).\<newline>'',
    ''\<newline>'',
    ''IMPORTANT: Structure the itinerary to specifically include the user'', [CHR 0x27], ''s selected options rather than generic suggestions.\<newline>'',
    ''REMEMBER: Write EVERYTHING in '', language td, '', not English or any other language.\<newline>'']\<close>

text \<open>The HTML document handed to WeasyPrint (lines 604-673); \<open>now\<close> is the formatted
  time of line 648.\<close>

definition html_content :: "trip_data \<Rightarrow> string \<Rightarrow> preferences \<Rightarrow> string \<Rightarrow> string \<Rightarrow> string" where
  \<open>html_content td research p itinerary_text now = concat [
    ''\<newline>'',
    ''                        <!DOCTYPE html>\<newline>'',
    ''                        <html>\<newline>'',
    ''                        <head>\<newline>'',
    ''                            <meta charset="UTF-8">\<newline>'',
    ''                            <title>Travel Itinerary - '', destination td, ''</title>\<newline>'',
    ''                            <style>\<newline>'',
    ''                                body { \<newline>'',
    ''                                    font-family: Arial, sans-serif; \<newline>'',
    ''                                    margin: 20px; \<newline>'',
    ''                                    line-height: 1.6; \<newline>'',
    ''                                    color: #333;\<newline>'',
    ''                                }\<newline>'',
    ''                                .header { \<newline>'',
    ''                                    text-align: center; \<newline>'',
    ''                                    color: #2E86AB; \<newline>'',
    ''                                    margin-bottom: 30px; \<newline>'',
    ''                                    border-bottom: 2px solid #2E86AB;\<newline>'',
    ''                                    padding-bottom: 20px;\<newline>'',
    ''                                }\<newline>'',
    ''                                .section { \<newline>'',
    ''                                    margin: 20px 0; \<newline>'',
    ''                                    padding: 15px;\<newline>'',
    ''                                    border-left: 4px solid #A23B72;\<newline>'',
    ''                                    background-color: #f9f9f9;\<newline>'',
    ''                                }\<newline>'',
    ''                                .section-title { \<newline>'',
    ''                                    color: #A23B72; \<newline>'',
    ''                                    font-size: 18px; \<newline>'',
    ''                                    font-weight: bold; \<newline>'',
    ''                                    margin-bottom: 10px; \<newline>'',
    ''                                }\<newline>'',
    ''                                .selections {\<newline>'',
    ''                                    background-color: #e8f4f8;\<newline>'',
    ''                                    padding: 15px;\<newline>'',
    ''                                    border-radius: 5px;\<newline>'',
    ''                                    margin: 10px 0;\<newline>'',
    ''                                }\<newline>'',
    ''                            </style>\<newline>'',
    ''                        </head>\<newline>'',
    ''                        <body>\<newline>'',
    ''                            <div class="header">\<newline>'',
    ''                                <h1>'', [CHR 0xF0, CHR 0x9F, CHR 0x8C, CHR 0x8D], '' Travel Itinerary: '', destination td, ''</h1>\<newline>'',
    ''                                <p><strong>Duration:</strong> '', str_int (num_days td), '' days | <strong>Budget:</strong> '', rupee, str_int (budget td), '' INR | <strong>Language:</strong> '', language td, ''</p>\<newline>'',
    ''                                <p><strong>Generated:</strong> '', now, ''</p>\<newline>'',
    ''                            </div>\<newline>'',
    ''                            \<newline>'',
    ''                            <div class="section">\<newline>'',
    ''                                <div class="section-title">'', [CHR 0xF0, CHR 0x9F, CHR 0x94, CHR 0x8D], '' Research Results</div>\<newline>'',
    ''                                <div>'', replace_char (CHR 0x0A) ''<br/>'' research, ''</div>\<newline>'',
    ''                            </div>\<newline>'',
    ''                            \<newline>'',
    ''                            <div class="section">\<newline>'',
    ''                                <div class="section-title">'', [CHR 0xE2, CHR 0x9C, CHR 0xA8], '' Your Selections</div>\<newline>'',
    ''                                <div class="selections">\<newline>'',
    ''                                    <p><strong>'', [CHR 0xF0, CHR 0x9F, CHR 0x8F, CHR 0xA8], '' Accommodation:</strong> '', selected_accommodation p, '' ('', accommodation p, '')</p>\<newline>'',
    ''                                    <p><strong>'', [CHR 0xF0, CHR 0x9F, CHR 0x8E, CHR 0xAF], '' Activities:</strong> '', join '', '' (selected_activities p), '' ('', activities p, '')</p>\<newline>'',
    ''                                    <p><strong>'', [CHR 0xF0, CHR 0x9F, CHR 0x8D, CHR 0xBD], [CHR 0xEF, CHR 0xB8, CHR 0x8F], '' Dining:</strong> '', join '', '' (selected_dining p), '' ('', dining p, '')</p>\<newline>'',
    ''                                    <p><strong>'', [CHR 0xF0, CHR 0x9F, CHR 0x9A, CHR 0x97], '' Transportation:</strong> '', selected_transport p, '' ('', transportation p, '')</p>\<newline>'',
    ''                                    '', (if special_requests p \<noteq> [] then (''<p><strong>'' @ [CHR 0xF0, CHR 0x9F, CHR 0x92, CHR 0xAD] @ '' Special Requests:</strong> '' @ special_requests p @ ''</p>'') else []), ''\<newline>'',
    ''                                </div>\<newline>'',
    ''                            </div>\<newline>'',
    ''                            \<newline>'',
    ''                            <div class="section">\<newline>'',
    ''                                <div class="section-title">'', [CHR 0xF0, CHR 0x9F, CHR 0x97, CHR 0x93], [CHR 0xEF, CHR 0xB8, CHR 0x8F], '' Detailed Itinerary</div>\<newline>'',
    ''                                <div>'', replace_char (CHR 0x0A) ''<br/>'' itinerary_text, ''</div>\<newline>'',
    ''                            </div>\<newline>'',
    ''                        </body>\<newline>'',
    ''                        </html>\<newline>'',
    ''                        '']\<close>

text \<open>The plain-text document of the fallback (lines 756-776).\<close>

definition formatted_content :: "trip_data \<Rightarrow> string \<Rightarrow> preferences \<Rightarrow> string \<Rightarrow> string \<Rightarrow> string" where
  \<open>formatted_content td research p itinerary_text now = concat [
    ''\<newline>'',
    ''=== TRAVEL ITINERARY ===\<newline>'',
    ''Destination: '', destination td, ''\<newline>'',
    ''Duration: '', str_int (num_days td), '' days\<newline>'',
    ''Budget: '', rupee, str_int (budget td), '' INR\<newline>'',
    ''Language: '', language td, ''\<newline>'',
    ''Generated: '', now, ''\<newline>'',
    ''\<newline>'',
    ''=== RESEARCH RESULTS ===\<newline>'',
    research, ''\<newline>'',
    ''\<newline>'',
    ''=== YOUR SELECTIONS ===\<newline>'',
    [CHR 0xF0, CHR 0x9F, CHR 0x8F, CHR 0xA8], '' Accommodation: '', selected_accommodation p, '' ('', accommodation p, '')\<newline>'',
    [CHR 0xF0, CHR 0x9F, CHR 0x8E, CHR 0xAF], '' Activities: '', join '', '' (selected_activities p), '' ('', activities p, '')\<newline>'',
    [CHR 0xF0, CHR 0x9F, CHR 0x8D, CHR 0xBD], [CHR 0xEF, CHR 0xB8, CHR 0x8F], '' Dining: '', join '', '' (selected_dining p), '' ('', dining p, '')\<newline>'',
    [CHR 0xF0, CHR 0x9F, CHR 0x9A, CHR 0x97], '' Transportation: '', selected_transport p, '' ('', transportation p, '')\<newline>'',
    (if special_requests p \<noteq> [] then ([CHR 0xF0, CHR 0x9F, CHR 0x92, CHR 0xAD] @ '' Special Requests: '' @ special_requests p) else []), ''\<newline>'',
    ''\<newline>'',
    ''=== DETAILED ITINERARY ===\<newline>'',
    itinerary_text, ''\<newline>'']\<close>

text \<open>The prompt of the coordinate fallback (lines 889-893).\<close>

definition geocode_prompt :: "string \<Rightarrow> string" where
  \<open>geocode_prompt destination_name = concat [
    ''\<newline>'',
    ''                    What are the latitude and longitude coordinates for '', destination_name, ''?\<newline>'',
    ''                    Respond ONLY with: latitude,longitude\<newline>'',
    ''                    Example: 28.6139,77.2090\<newline>'',
    ''                    '']\<close>

text \<open>File names, the texts of the ReportLab paragraphs and the texts of a calendar
  event (lines 677, 699, 704, 719, 781, 803, 805, 809). Where line 805 separates the
  parts of the description, the source has an escaped backslash: the text holds a
  backslash followed by the letter n, not a line break.\<close>

definition pdf_filename :: "trip_data \<Rightarrow> string \<Rightarrow> string" where
  \<open>pdf_filename td export_trip_id = concat [
    ''itinerary_'', replace_char CHR '' '' ''_'' (destination td), ''_'', export_trip_id, ''.pdf'']\<close>

definition reportlab_title :: "trip_data \<Rightarrow> string" where
  \<open>reportlab_title td = concat [
    ''Travel Itinerary: '', destination td]\<close>

definition reportlab_details :: "trip_data \<Rightarrow> string" where
  \<open>reportlab_details td = concat [
    ''Duration: '', str_int (num_days td), '' days | Budget: '', rupee, str_int (budget td), '' INR | Language: '', language td]\<close>

definition selections_text :: "preferences \<Rightarrow> string" where
  \<open>selections_text p = concat [
    ''Accommodation: '', selected_accommodation p, '' | Activities: '', str_take 100 (join '', '' (selected_activities p)), '' | Dining: '', str_take 100 (join '', '' (selected_dining p)), '' | Transportation: '', selected_transport p]\<close>

definition txt_filename :: "trip_data \<Rightarrow> string \<Rightarrow> string" where
  \<open>txt_filename td export_trip_id = concat [
    ''itinerary_'', replace_char CHR '' '' ''_'' (destination td), ''_'', export_trip_id, ''.txt'']\<close>

definition event_name_text :: "trip_data \<Rightarrow> nat \<Rightarrow> string" where
  \<open>event_name_text td i = concat [
    [CHR 0xF0, CHR 0x9F, CHR 0x8C, CHR 0x8D], '' '', destination td, '' Trip - Day '', str_int (int i + 1)]\<close>

definition event_description_text :: "trip_data \<Rightarrow> preferences \<Rightarrow> string \<Rightarrow> nat \<Rightarrow> string" where
  \<open>event_description_text td p itinerary_text i = concat [
    ''Day '', str_int (int i + 1), '' of your '', destination td, '' trip'', [CHR 0x5C], ''n'', [CHR 0x5C], ''nBudget: '', rupee, str_int (budget td), '' INR'', [CHR 0x5C], ''n'', [CHR 0x5C], ''nSelected Options:'', [CHR 0x5C], ''n- Accommodation: '', selected_accommodation p, [CHR 0x5C], ''n- Activities: '', join '', '' (selected_activities p), [CHR 0x5C], ''n- Dining: '', join '', '' (selected_dining p), [CHR 0x5C], ''n- Transport: '', selected_transport p, [CHR 0x5C], ''n'', [CHR 0x5C], ''nItinerary:'', [CHR 0x5C], ''n'', str_take 300 itinerary_text, ''...'']\<close>

definition ics_filename :: "trip_data \<Rightarrow> string \<Rightarrow> string" where
  \<open>ics_filename td export_trip_id = concat [
    ''trip_'', replace_char CHR '' '' ''_'' (destination td), ''_'', export_trip_id, ''.ics'']\<close>

text \<open>The coordinate table (lines 844-874), in the order of the dictionary literal, which
  is the order in which Python iterates over it.\<close>

definition location_coords :: "(string \<times> coords) list" where
  \<open>location_coords = [
    (''delhi'', (28.6139, 77.2090)),
    (''mumbai'', (19.0760, 72.8777)),
    (''bangalore'', (12.9716, 77.5946)),
    (''chennai'', (13.0827, 80.2707)),
    (''kolkata'', (22.5726, 88.3639)),
    (''hyderabad'', (17.3850, 78.4867)),
    (''pune'', (18.5204, 73.8567)),
    (''ahmedabad'', (23.0225, 72.5714)),
    (''jaipur'', (26.9124, 75.7873)),
    (''goa'', (15.2993, 74.1240)),
    (''kerala'', (10.8505, 76.2711)),
    (''kashmir'', (34.0837, 74.7973)),
    (''rajasthan'', (27.0238, 74.2179)),
    (''uttarakhand'', (30.0668, 79.0193)),
    (''himachal pradesh'', (31.1048, 77.1734)),
    (''paris'', (48.8566, 2.3522)),
    (''london'', (51.5074, -0.1278)),
    (''new york'', (40.7128, -74.0060)),
    (''tokyo'', (35.6762, 139.6503)),
    (''bangkok'', (13.7563, 100.5018)),
    (''dubai'', (25.2048, 55.2708)),
    (''singapore'', (1.3521, 103.8198)),
    (''malaysia'', (4.2105, 101.9758)),
    (''indonesia'', (-0.7893, 113.9213)),
    (''thailand'', (15.8700, 100.9925)),
    (''nepal'', (28.3949, 84.1240)),
    (''bhutan'', (27.5142, 90.4336)),
    (''sri lanka'', (7.8731, 80.7718)),
    (''maldives'', (3.2028, 73.2207))]\<close>


subsection \<open>Identifiers\<close>

text \<open>\<^verbatim>\<open>str(uuid.uuid4())\<close>: the 32 hexadecimal digits of the 128-bit value, most
  significant first, in groups of 8, 4, 4, 4 and 12 separated by hyphens.\<close>

definition hex_digit :: "nat \<Rightarrow> char" where
  "hex_digit d = ''0123456789abcdef'' ! d"

definition uuid_hex :: "128 word \<Rightarrow> string" where
  "uuid_hex u = map (\<lambda>i. hex_digit (unat (drop_bit (4 * (31 - i)) u AND 0xF))) [0..<32]"

definition str_uuid :: "128 word \<Rightarrow> string" where
  "str_uuid u =
     (let h = uuid_hex u in
      take 8 h @ ''-'' @ take 4 (drop 8 h) @ ''-'' @ take 4 (drop 12 h) @ ''-'' @
      take 4 (drop 16 h) @ ''-'' @ drop 20 h)"

subsection \<open>Statements that may raise\<close>

text \<open>A piece of the script takes the state and returns the state it leaves, with the
  value it computed or the exception it raised. What was done before a raise stays
  done.\<close>

type_synonym 'a run = "run_state \<Rightarrow> (py_error + 'a) \<times> run_state"

definition return_run :: "'a \<Rightarrow> 'a run" where
  "return_run x s = (Inr x, s)"

definition bind_run :: "'a run \<Rightarrow> ('a \<Rightarrow> 'b run) \<Rightarrow> 'b run" where
  "bind_run m f s = (case m s of (Inl e, s1) \<Rightarrow> (Inl e, s1) | (Inr x, s1) \<Rightarrow> f x s1)"

text \<open>\<^verbatim>\<open>client.invoke(prompt).content\<close>: the request is made, then the call returns or
  raises.\<close>

definition invoke :: "world \<Rightarrow> chat_client \<Rightarrow> string \<Rightarrow> string run" where
  "invoke w client prompt s = (chat w client prompt, s\<lparr>calls := calls s @ [(client, prompt)]\<rparr>)"

text \<open>\<^verbatim>\<open>llm.invoke(prompt).content\<close>: the name \<^verbatim>\<open>llm\<close> is looked up first.\<close>

definition llm_invoke :: "world \<Rightarrow> string \<Rightarrow> string run" where
  "llm_invoke w prompt s =
     (case llm s of
        None \<Rightarrow> (Inl (NameError ''llm''), s)
      | Some client \<Rightarrow> invoke w client prompt s)"

subsection \<open>Preference refinement (lines 172-509)\<close>

text \<open>The options of the four selection widgets (lines 260, 335, 415, 495).\<close>

definition accommodation_choices :: "string list" where
  "accommodation_choices = [''Option 1'', ''Option 2'', ''Option 3'', ''Let AI decide based on budget'']"

definition activity_choices :: "string list" where
  "activity_choices = [''Option 1'', ''Option 2'', ''Option 3'']"

definition dining_choices :: "string list" where
  "dining_choices = [''Option 1'', ''Option 2'', ''Option 3'']"

definition transport_choices :: "string list" where
  "transport_choices = [''Option 1'', ''Option 2'', ''Option 3'', ''Combination of options'']"

text \<open>Lines 205-265. \<open>trip_data\<close> is the local variable of line 173; subscripting it
  raises when it is \<^verbatim>\<open>None\<close>.\<close>

definition accommodation_section :: "world \<Rightarrow> trip_data option \<Rightarrow> string \<Rightarrow> ui \<Rightarrow> string run" where
  "accommodation_section w trip_data research u s =
     (case map_of accommodation_descriptions (accommodation_pref u) of
        None \<Rightarrow> (Inl (KeyError (accommodation_pref u)), s)
      | Some description \<Rightarrow>
          if accommodation_pref u \<noteq> ''No Preference'' then
            (let s1 = s\<lparr>llm := Some (ChatOpenAI (github_token w))\<rparr> in
             case trip_data of
               None \<Rightarrow> (Inl TypeError, s1)
             | Some td \<Rightarrow>
                 (case llm_invoke w (accommodation_search_prompt td research (accommodation_pref u)) s1 of
                    (Inl e, s2) \<Rightarrow> (Inl e, s2)
                  | (Inr accommodation_recommendations, s2) \<Rightarrow>
                      (Inr (accommodation_selection u), s2)))
          else (Inr ''No Preference'', s))"

text \<open>Lines 287-342.\<close>

definition activity_section :: "world \<Rightarrow> trip_data option \<Rightarrow> string \<Rightarrow> ui \<Rightarrow> string list run" where
  "activity_section w trip_data research u s =
     (case map_of activity_descriptions (activity_pref u) of
        None \<Rightarrow> (Inl (KeyError (activity_pref u)), s)
      | Some description \<Rightarrow>
          if activity_pref u \<noteq> ''Mix of Everything'' then
            (case trip_data of
               None \<Rightarrow> (Inl TypeError, s)
             | Some td \<Rightarrow>
                 (case llm_invoke w (activity_search_prompt td research (activity_pref u)) s of
                    (Inl e, s1) \<Rightarrow> (Inl e, s1)
                  | (Inr activity_recommendations, s1) \<Rightarrow>
                      (Inr (if activity_selection u = [] then [''Option 1'']
                            else activity_selection u), s1)))
          else (Inr [''Mix of Everything''], s))"

text \<open>Lines 364-422.\<close>

definition dining_section :: "world \<Rightarrow> trip_data option \<Rightarrow> string \<Rightarrow> ui \<Rightarrow> string list run" where
  "dining_section w trip_data research u s =
     (case map_of dining_descriptions (dining_pref u) of
        None \<Rightarrow> (Inl (KeyError (dining_pref u)), s)
      | Some description \<Rightarrow>
          if dining_pref u \<noteq> ''No Preference'' then
            (case trip_data of
               None \<Rightarrow> (Inl TypeError, s)
             | Some td \<Rightarrow>
                 (case llm_invoke w (dining_search_prompt td research (dining_pref u)) s of
                    (Inl e, s1) \<Rightarrow> (Inl e, s1)
                  | (Inr dining_recommendations, s1) \<Rightarrow>
                      (Inr (if dining_selection u = [] then [''Option 1'']
                            else dining_selection u), s1)))
          else (Inr [''No Preference''], s))"

text \<open>Lines 444-500.\<close>

definition transport_section :: "world \<Rightarrow> trip_data option \<Rightarrow> string \<Rightarrow> ui \<Rightarrow> string run" where
  "transport_section w trip_data research u s =
     (case map_of transport_descriptions (transport_pref u) of
        None \<Rightarrow> (Inl (KeyError (transport_pref u)), s)
      | Some description \<Rightarrow>
          if transport_pref u \<noteq> ''No Preference'' then
            (case trip_data of
               None \<Rightarrow> (Inl TypeError, s)
             | Some td \<Rightarrow>
                 (case llm_invoke w (transport_search_prompt td research (transport_pref u)) s of
                    (Inl e, s1) \<Rightarrow> (Inl e, s1)
                  | (Inr transport_recommendations, s1) \<Rightarrow>
                      (Inr (transport_selection u), s1)))
          else (Inr ''No Preference'', s))"

text \<open>The four categories in the order of the script, then the special requests
  (lines 504-509); the result holds the values that lines 578-588 store.\<close>

definition preferences_section :: "world \<Rightarrow> trip_data option \<Rightarrow> string \<Rightarrow> ui \<Rightarrow> preferences run" where
  "preferences_section w trip_data research u =
     bind_run (accommodation_section w trip_data research u) (\<lambda>sel_accommodation.
     bind_run (activity_section w trip_data research u) (\<lambda>sel_activities.
     bind_run (dining_section w trip_data research u) (\<lambda>sel_dining.
     bind_run (transport_section w trip_data research u) (\<lambda>sel_transport.
     return_run
       \<lparr>accommodation = accommodation_pref u, selected_accommodation = sel_accommodation,
        activities = activity_pref u, selected_activities = sel_activities,
        dining = dining_pref u, selected_dining = sel_dining,
        transportation = transport_pref u, selected_transport = sel_transport,
        special_requests = special_requests_input u\<rparr>))))"

subsection \<open>Document export (lines 599-787)\<close>

definition escape_angle :: "string \<Rightarrow> string" where
  "escape_angle s = replace_char CHR ''>'' ''&gt;'' (replace_char CHR ''<'' ''&lt;'' s)"

definition story :: "trip_data \<Rightarrow> string \<Rightarrow> preferences \<Rightarrow> string \<Rightarrow> flowable list" where
  "story td research p itinerary_text =
     [Paragraph (reportlab_title td) ''Title'', Spacer 1 12,
      Paragraph (reportlab_details td) ''Normal'', Spacer 1 12,
      Paragraph ''Research Results'' ''Heading2'',
      Paragraph (escape_angle (str_take 1000 research)) ''Normal'', Spacer 1 12,
      Paragraph ''Your Selections'' ''Heading2'',
      Paragraph (escape_angle (selections_text p)) ''Normal'', Spacer 1 12,
      Paragraph ''Detailed Itinerary'' ''Heading2'',
      Paragraph (escape_angle (str_take 2000 itinerary_text)) ''Normal'']"

text \<open>Lines 676-735: WeasyPrint first, ReportLab when it raises. The result is the
  flag \<^verbatim>\<open>pdf_generated\<close> and the state, with the file written on success.\<close>

definition generate_pdf :: "world \<Rightarrow> string \<Rightarrow> string \<Rightarrow> flowable list \<Rightarrow> run_state \<Rightarrow> bool \<times> run_state" where
  "generate_pdf w html filename flowables s =
     (case weasyprint w html filename of
        Inr bytes \<Rightarrow> (True, s\<lparr>files := (files s)(filename \<mapsto> bytes)\<rparr>)
      | Inl weasy_error \<Rightarrow>
          (case reportlab w filename flowables of
             Inr bytes \<Rightarrow> (True, s\<lparr>files := (files s)(filename \<mapsto> bytes)\<rparr>)
           | Inl reportlab_error \<Rightarrow> (False, s)))"

text \<open>Lines 600-787. The outer \<^verbatim>\<open>try\<close> turns an exception of \<^verbatim>\<open>open\<close> into a message and
  offers nothing.\<close>

definition document_export :: "world \<Rightarrow> trip_data \<Rightarrow> string \<Rightarrow> preferences \<Rightarrow> string \<Rightarrow> run_state \<Rightarrow> run_state" where
  "document_export w td research p itinerary_text s =
     (let export_trip_id = take 8 (str_uuid (uuid4 w 600));
          html = html_content td research p itinerary_text (strftime_now w 648);
          filename = pdf_filename td export_trip_id
      in case generate_pdf w html filename (story td research p itinerary_text) s of
           (True, s1) \<Rightarrow>
             (case files s1 filename of
                None \<Rightarrow> s1
              | Some pdf_data \<Rightarrow>
                  s1\<lparr>downloads := downloads s1 @
                        [\<lparr>label = [CHR 0xF0, CHR 0x9F, CHR 0x93, CHR 0xA5] @ '' Download PDF'',
                          data = pdf_data, file_name = filename, mime = ''application/pdf''\<rparr>],
                     files := (files s1)(filename := None)\<rparr>)
         | (False, s1) \<Rightarrow>
             s1\<lparr>downloads := downloads s1 @
                   [\<lparr>label = [CHR 0xF0, CHR 0x9F, CHR 0x93, CHR 0x84] @ '' Download as Text File'',
                     data = formatted_content td research p itinerary_text (strftime_now w 762),
                     file_name = txt_filename td export_trip_id, mime = ''text/plain''\<rparr>]\<rparr>)"

subsection \<open>Calendar export (lines 791-830)\<close>

definition timedelta_days :: "int \<Rightarrow> int" where
  "timedelta_days d = 86400 * d"

definition timedelta_hours :: "int \<Rightarrow> int" where
  "timedelta_hours h = 3600 * h"

text \<open>\<^verbatim>\<open>date + timedelta\<close>: the whole days of the difference are added to the ordinal;
  a result outside \<^verbatim>\<open>date.min\<close> .. \<^verbatim>\<open>date.max\<close> raises \<^verbatim>\<open>OverflowError\<close>.\<close>

definition date_add :: "int \<Rightarrow> int \<Rightarrow> py_error + int" where
  "date_add d delta =
     (let ordinal = d + delta div 86400
      in if 1 \<le> ordinal \<and> ordinal \<le> 3652059 then Inr ordinal else Inl OverflowError)"

text \<open>The loop of lines 801-807 over the remaining values of \<^verbatim>\<open>range(num_days)\<close>.
  \<^verbatim>\<open>cal.events\<close> is kept as the list of the events added, in the order of insertion:
  every \<^verbatim>\<open>Event()\<close> has an identifier of its own, so the collection holds one element for
  each \<^verbatim>\<open>add\<close>.\<close>

fun add_events :: "trip_data \<Rightarrow> preferences \<Rightarrow> string \<Rightarrow> int \<Rightarrow> nat list \<Rightarrow> event list \<Rightarrow> py_error + event list" where
  "add_events td p itinerary_text start_date [] cal = Inr cal"
| "add_events td p itinerary_text start_date (i # rest) cal =
     (case date_add start_date (timedelta_days (int i)) of
        Inl e \<Rightarrow> Inl e
      | Inr d \<Rightarrow>
          add_events td p itinerary_text start_date rest
            (cal @ [\<lparr>e_name = event_name_text td i, e_begin = d,
                     e_description = event_description_text td p itinerary_text i,
                     e_duration = timedelta_hours 8\<rparr>]))"

definition calendar_events :: "trip_data \<Rightarrow> preferences \<Rightarrow> string \<Rightarrow> int \<Rightarrow> py_error + event list" where
  "calendar_events td p itinerary_text start_date =
     add_events td p itinerary_text start_date [0..<nat (num_days td)] []"

text \<open>Lines 792-830. When the import or the loop raises, the handler shows a message,
  tries to install the package and offers nothing.\<close>

definition calendar_export :: "world \<Rightarrow> trip_data \<Rightarrow> preferences \<Rightarrow> string \<Rightarrow> run_state \<Rightarrow> run_state" where
  "calendar_export w td p itinerary_text s =
     (let export_trip_id = take 8 (str_uuid (uuid4 w 792))
      in if \<not> ics_available w then s
         else
           (case calendar_events td p itinerary_text (today w) of
              Inl e \<Rightarrow> s
            | Inr events \<Rightarrow>
                s\<lparr>downloads := downloads s @
                      [\<lparr>label = [CHR 0xF0, CHR 0x9F, CHR 0x93, CHR 0xA5] @ '' Download Calendar'',
                        data = calendar_str w events,
                        file_name = ics_filename td export_trip_id,
                        mime = ''text/calendar''\<rparr>]\<rparr>))"

subsection \<open>Coordinate lookup (lines 841-905)\<close>

text \<open>The loop of lines 877-879 over the remaining items of the table.\<close>

fun scan_coords :: "(string \<times> coords) list \<Rightarrow> string \<Rightarrow> coords option" where
  "scan_coords [] dest_lower = None"
| "scan_coords ((key, c) # rest) dest_lower =
     (if str_contains key dest_lower then Some c else scan_coords rest dest_lower)"

text \<open>The body of the \<^verbatim>\<open>try\<close> of lines 882-900: \<open>Inr (Some c)\<close> where it returns \<open>c\<close>,
  \<open>Inr None\<close> where it ends without returning, \<open>Inl e\<close> where it raises.\<close>

definition geocode_fallback :: "world \<Rightarrow> string \<Rightarrow> coords option run" where
  "geocode_fallback w destination_name s =
     (case invoke w (ChatOpenAI (github_token w)) (geocode_prompt destination_name) s of
        (Inl e, s1) \<Rightarrow> (Inl e, s1)
      | (Inr content, s1) \<Rightarrow>
          (let coords_text = str_strip content
           in if str_contains '','' coords_text then
                (case str_split CHR '','' coords_text of
                   [lat_str, lon_str] \<Rightarrow>
                     (case py_float w (str_strip lat_str) of
                        None \<Rightarrow> (Inl ValueError, s1)
                      | Some lat \<Rightarrow>
                          (case py_float w (str_strip lon_str) of
                             None \<Rightarrow> (Inl ValueError, s1)
                           | Some lon \<Rightarrow> (Inr (Some (lat, lon)), s1)))
                 | _ \<Rightarrow> (Inl ValueError, s1))
              else (Inr None, s1)))"

definition get_coordinates :: "world \<Rightarrow> string \<Rightarrow> coords run" where
  "get_coordinates w destination_name s =
     (case scan_coords location_coords (py_lower w destination_name) of
        Some c \<Rightarrow> (Inr c, s)
      | None \<Rightarrow>
          (case geocode_fallback w destination_name s of
             (Inr (Some c), s1) \<Rightarrow> (Inr c, s1)
           | (Inr None, s1) \<Rightarrow> (Inr (20.5937, 78.9629), s1)
           | (Inl e, s1) \<Rightarrow> (Inr (20.5937, 78.9629), s1)))"

text \<open>Lines 835-946: the lookup, the map, and the lookup again when drawing raises.\<close>

definition map_section :: "world \<Rightarrow> trip_data \<Rightarrow> unit run" where
  "map_section w td s =
     (if \<not> MAP_AVAILABLE w then (Inr (), s)
      else
        (case get_coordinates w (destination td) s of
           (Inr c, s1) \<Rightarrow>
             (case folium_error w of
                None \<Rightarrow> (Inr (), s1)
              | Some e \<Rightarrow> bind_run (get_coordinates w (destination td)) (\<lambda>c. return_run ()) s1)
         | (Inl e, s1) \<Rightarrow> bind_run (get_coordinates w (destination td)) (\<lambda>c. return_run ()) s1))"

subsection \<open>Itinerary synthesis and the history (lines 512-590)\<close>

definition new_trip_record :: "world \<Rightarrow> trip_data \<Rightarrow> string \<Rightarrow> preferences \<Rightarrow> string \<Rightarrow> trip_record" where
  "new_trip_record w td research p itinerary_text =
     \<lparr>trip_id = take 8 (str_uuid (uuid4 w 569)),
      trip_destination = destination td,
      trip_days = num_days td,
      trip_budget = budget td,
      trip_language = language td,
      trip_itinerary = itinerary_text,
      trip_research = research,
      trip_preferences = p,
      trip_date = strftime_now w 589\<rparr>"

text \<open>Lines 593-830: the two export buttons.\<close>

definition export_section :: "world \<Rightarrow> trip_data \<Rightarrow> string \<Rightarrow> ui \<Rightarrow> preferences \<Rightarrow> string \<Rightarrow> run_state \<Rightarrow> run_state" where
  "export_section w td research u p itinerary_text s =
     (let s1 = (if pdf_clicked u then document_export w td research p itinerary_text s else s)
      in if calendar_clicked u then calendar_export w td p itinerary_text s1 else s1)"

text \<open>Lines 512-946, under the button of line 512. The result is \<^verbatim>\<open>itinerary_text\<close>, or
  \<open>None\<close> when the button was not pressed.\<close>

definition itinerary_section :: "world \<Rightarrow> trip_data option \<Rightarrow> string \<Rightarrow> ui \<Rightarrow> preferences \<Rightarrow> string option run" where
  "itinerary_section w trip_data research u p s =
     (if itinerary_clicked u then
        (case trip_data of
           None \<Rightarrow> (Inl TypeError, s)
         | Some td \<Rightarrow>
             (case invoke w (ChatOpenAI (github_token w)) (planner_input td research p) s of
                (Inl e, s1) \<Rightarrow> (Inl e, s1)
              | (Inr itinerary_text, s1) \<Rightarrow>
                  (let s2 = s1\<lparr>session := (session s1)\<lparr>trip_history :=
                               trip_history (session s1) @
                                 [new_trip_record w td research p itinerary_text]\<rparr>\<rparr>;
                       s3 = export_section w td research u p itinerary_text s2
                   in bind_run (map_section w td) (\<lambda>_. return_run (Some itinerary_text)) s3)))
      else (Inr None, s))"

subsection \<open>One execution of the script\<close>

definition truthy :: "string option \<Rightarrow> bool" where
  "truthy v = (case v of None \<Rightarrow> False | Some t \<Rightarrow> t \<noteq> [])"

text \<open>Lines 63-169. The result is \<open>True\<close> where \<^verbatim>\<open>st.rerun()\<close> ends the execution.\<close>

definition research_stage :: "world \<Rightarrow> ui \<Rightarrow> bool run" where
  "research_stage w u s =
     (if generate_clicked u then
        if \<not> (truthy (github_token w) \<and> truthy (serp_api_key w)) then (Inr False, s)
        else if destination_input u = [] then (Inr False, s)
        else
          (let s1 = s\<lparr>llm := Some (ChatOpenAI (github_token w))\<rparr>;
               td = \<lparr>destination = destination_input u, num_days = num_days_input u,
                     budget = budget_input u, language = language_input u\<rparr>
           in case researcher w td of
                Inl e \<Rightarrow> (Inl e, s1)
              | Inr research \<Rightarrow>
                  (Inr True,
                   s1\<lparr>session := (session s1)\<lparr>research_results := Some research,
                        current_trip_data := Some td, show_preferences := True\<rparr>\<rparr>))
      else (Inr False, s))"

datatype outcome = Completed "string option" | Rerun | Raised py_error

text \<open>A new execution starts with no module-level variable bound, no request made and
  an empty page.\<close>

definition fresh_namespace :: "run_state \<Rightarrow> run_state" where
  "fresh_namespace s = s\<lparr>llm := None, calls := [], downloads := []\<rparr>"

definition script_run :: "world \<Rightarrow> ui \<Rightarrow> run_state \<Rightarrow> outcome \<times> run_state" where
  "script_run w u s0 =
     (case research_stage w u (fresh_namespace s0) of
        (Inl e, s1) \<Rightarrow> (Raised e, s1)
      | (Inr True, s1) \<Rightarrow> (Rerun, s1)
      | (Inr False, s1) \<Rightarrow>
          (case research_results (session s1) of
             None \<Rightarrow> (Completed None, s1)
           | Some research \<Rightarrow>
               if show_preferences (session s1) then
                 (case bind_run (preferences_section w (current_trip_data (session s1)) research u)
                         (itinerary_section w (current_trip_data (session s1)) research u) s1 of
                    (Inl e, s2) \<Rightarrow> (Raised e, s2)
                  | (Inr itinerary, s2) \<Rightarrow> (Completed itinerary, s2))
               else (Completed None, s1)))"

text \<open>A session: one execution after the other, each with the widget values and the
  outside world of its moment, on the state the one before left.\<close>

fun run_session :: "(world \<times> ui) list \<Rightarrow> run_state \<Rightarrow> outcome list \<times> run_state" where
  "run_session [] s = ([], s)"
| "run_session ((w, u) # rest) s =
     (case script_run w u s of
        (out, s1) \<Rightarrow> (case run_session rest s1 of (outs, s2) \<Rightarrow> (out # outs, s2)))"

definition new_run :: run_state where
  "new_run = \<lparr>session = new_session, llm = None, calls = [], files = Map.empty, downloads = []\<rparr>"


subsection \<open>Notions of the specification\<close>


text \<open>What Streamlit guarantees of the four selection widgets: a \<^verbatim>\<open>selectbox\<close> returns
  one of its options, a \<^verbatim>\<open>multiselect\<close> a list of its options.\<close>

definition widget_contract :: "ui \<Rightarrow> bool" where
  "widget_contract u =
     (accommodation_selection u \<in> set accommodation_choices \<and>
      set (activity_selection u) \<subseteq> set activity_choices \<and>
      set (dining_selection u) \<subseteq> set dining_choices \<and>
      transport_selection u \<in> set transport_choices)"

text \<open>A run has synthesised an itinerary when it completed with \<^verbatim>\<open>itinerary_text\<close> set.\<close>

definition synthesized :: "outcome \<Rightarrow> bool" where
  "synthesized out = (case out of Completed (Some itinerary_text) \<Rightarrow> True | _ \<Rightarrow> False)"

subsection \<open>Example values\<close>

text \<open>An outside world: both credentials set, a research agent and a chat model that
  answer, no PDF renderer installed, a \<^verbatim>\<open>float\<close> that accepts nothing, and the
  lower case of ASCII.\<close>

definition example_world :: world where
  "example_world =
     \<lparr>github_token = Some ''ghp_example'', serp_api_key = Some ''serp_example'',
      researcher = (\<lambda>td. Inr ''ACCOMMODATIONS OPTIONS: ...''),
      chat = (\<lambda>client prompt. Inr ''Option 1 ... Option 2 ... Option 3 ...''),
      uuid4 = (\<lambda>line. 0x123e4567e89b42d3a456426614174000),
      strftime_now = (\<lambda>line. ''2025-01-01 10:00''),
      today = 739252,
      weasyprint = (\<lambda>html filename. Inl (ServiceError ''weasyprint'')),
      reportlab = (\<lambda>filename flowables. Inl (ServiceError ''reportlab'')),
      ics_available = True,
      calendar_str = (\<lambda>events. ''BEGIN:VCALENDAR ...''),
      MAP_AVAILABLE = True,
      folium_error = None,
      py_float = (\<lambda>text. None),
      py_lower = ascii_lower\<rparr>"

definition example_reply :: string where
  "example_reply = ''Option 1 ... Option 2 ... Option 3 ...''"

text \<open>The scenario of the specification: Paris, 5 days, 150000 INR, English; mid-range
  hotels, a mix of activities, budget-friendly dining, no preference of transportation.\<close>

definition example_form :: ui where
  "example_form =
     \<lparr>destination_input = ''Paris'', num_days_input = 5, budget_input = 150000,
      language_input = ''English'', generate_clicked = True,
      accommodation_pref = ''Mid-range Hotels ('' @ rupee @ ''4,000-15,000 per night)'',
      accommodation_selection = ''Option 1'',
      activity_pref = ''Mix of Everything'', activity_selection = [],
      dining_pref = ''Budget-Friendly ('' @ rupee @ ''300-1,500 per meal)'',
      dining_selection = [],
      transport_pref = ''No Preference'', transport_selection = ''Option 1'',
      special_requests_input = [],
      itinerary_clicked = False, pdf_clicked = False, calendar_clicked = False\<rparr>"

definition example_trip :: trip_data where
  "example_trip = \<lparr>destination = ''Paris'', num_days = 5, budget = 150000, language = ''English''\<rparr>"

definition example_prefs :: preferences where
  "example_prefs =
     \<lparr>accommodation = ''Mid-range Hotels ('' @ rupee @ ''4,000-15,000 per night)'',
      selected_accommodation = ''Option 1'',
      activities = ''Mix of Everything'', selected_activities = [''Mix of Everything''],
      dining = ''Budget-Friendly ('' @ rupee @ ''300-1,500 per meal)'', selected_dining = [''Option 1''],
      transportation = ''No Preference'', selected_transport = ''No Preference'',
      special_requests = []\<rparr>"

text \<open>The run state after the research run, as the next execution finds it.\<close>

definition researched :: run_state where
  "researched = new_run\<lparr>session := new_session\<lparr>research_results := Some ''ACCOMMODATIONS OPTIONS: ...'',
       current_trip_data := Some example_trip, show_preferences := True\<rparr>\<rparr>"

text \<open>The same form in a later execution, with the itinerary button pressed.\<close>

definition planning_form :: ui where
  "planning_form = example_form\<lparr>generate_clicked := False, itinerary_clicked := True\<rparr>"

definition sentinel_form :: ui where
  "sentinel_form = planning_form\<lparr>accommodation_pref := ''No Preference'',
      activity_pref := ''Mix of Everything'', dining_pref := ''No Preference'',
      transport_pref := ''No Preference''\<rparr>"

text \<open>The run state after one synthesis from \<open>researched\<close>.\<close>

definition planned :: run_state where
  "planned =
     \<lparr>session = (session researched)\<lparr>trip_history :=
         [new_trip_record example_world example_trip ''ACCOMMODATIONS OPTIONS: ...''
            example_prefs example_reply]\<rparr>,
      llm = Some (ChatOpenAI (Some ''ghp_example'')),
      calls =
        [(ChatOpenAI (Some ''ghp_example''),
          accommodation_search_prompt example_trip ''ACCOMMODATIONS OPTIONS: ...''
            (accommodation_pref planning_form)),
         (ChatOpenAI (Some ''ghp_example''),
          dining_search_prompt example_trip ''ACCOMMODATIONS OPTIONS: ...'' (dining_pref planning_form)),
         (ChatOpenAI (Some ''ghp_example''),
          planner_input example_trip ''ACCOMMODATIONS OPTIONS: ...'' example_prefs)],
      files = Map.empty, downloads = []\<rparr>"

definition example_session :: "(world \<times> ui) list" where
  "example_session = [(example_world, example_form), (example_world, planning_form),
                      (example_world, planning_form)]"

section \<open>Properties\<close>

subsection \<open>Strings and the coordinate table\<close>

lemma starts_with_iff: "starts_with k t \<longleftrightarrow> (\<exists>q. t = k @ q)"
  by (induction k t rule: starts_with.induct) auto

lemma str_contains_iff: "str_contains k t \<longleftrightarrow> (\<exists>p q. t = p @ k @ q)"
proof (induction t)
  case Nil
  then show ?case by simp
next
  case (Cons c cs)
  show ?case
  proof
    assume "str_contains k (c # cs)"
    then consider "starts_with k (c # cs)" | "str_contains k cs" by auto
    then show "\<exists>p q. c # cs = p @ k @ q"
    proof cases
      case 1
      then obtain q where "c # cs = k @ q" by (auto simp: starts_with_iff)
      then have "c # cs = [] @ k @ q" by simp
      then show ?thesis by blast
    next
      case 2
      then obtain p q where "cs = p @ k @ q" using Cons.IH by blast
      then have "c # cs = (c # p) @ k @ q" by simp
      then show ?thesis by blast
    qed
  next
    assume "\<exists>p q. c # cs = p @ k @ q"
    then obtain p q where pq: "c # cs = p @ k @ q" by blast
    show "str_contains k (c # cs)"
    proof (cases p)
      case Nil
      then have "starts_with k (c # cs)" using pq by (auto simp: starts_with_iff)
      then show ?thesis by simp
    next
      case (Cons a p')
      then have "cs = p' @ k @ q" using pq by simp
      then have "str_contains k cs" using Cons.IH by blast
      then show ?thesis by simp
    qed
  qed
qed

lemma scan_coords_first:
  "table = before @ (key, c) # rest \<Longrightarrow> str_contains key d \<Longrightarrow>
   \<forall>k \<in> set (map fst before). \<not> str_contains k d \<Longrightarrow> scan_coords table d = Some c"
  by (induction before arbitrary: table) auto

lemma scan_coords_split:
  "\<exists>k \<in> set (map fst table). str_contains k d \<Longrightarrow>
   \<exists>before key c rest. table = before @ (key, c) # rest \<and> str_contains key d \<and>
      (\<forall>k \<in> set (map fst before). \<not> str_contains k d)"
proof (induction table)
  case Nil
  then show ?case by simp
next
  case (Cons a table)
  obtain key c where a: "a = (key, c)" by (cases a)
  show ?case
  proof (cases "str_contains key d")
    case True
    then have "a # table = [] @ (key, c) # table \<and> str_contains key d \<and>
      (\<forall>k \<in> set (map fst []). \<not> str_contains k d)" using a by simp
    then show ?thesis by blast
  next
    case False
    then have "\<exists>k \<in> set (map fst table). str_contains k d" using Cons.prems a by auto
    then obtain before key' c' rest where h: "table = before @ (key', c') # rest" "str_contains key' d"
      "\<forall>k \<in> set (map fst before). \<not> str_contains k d" using Cons.IH by blast
    then have "a # table = (a # before) @ (key', c') # rest \<and> str_contains key' d \<and>
      (\<forall>k \<in> set (map fst (a # before)). \<not> str_contains k d)" using False a by simp
    then show ?thesis by blast
  qed
qed

lemma scan_coords_None:
  "scan_coords table d = None \<longleftrightarrow> (\<forall>k \<in> set (map fst table). \<not> str_contains k d)"
  by (induction table) (auto split: if_splits)


lemma goa_lowercase: "ascii_lower ''Visiting GOA next month'' = ''visiting goa next month''"
  by (simp add: ascii_lower_def lower_char_def)

lemma goa_scan_coords: "scan_coords location_coords ''visiting goa next month'' = Some (15.2993, 74.1240)"
  by (simp add: location_coords_def)

text \<open>On a text of ASCII a slice counts bytes; a character of several bytes counts once.\<close>

lemma str_take_ascii: "\<forall>c \<in> set s. \<not> is_continuation c \<Longrightarrow> str_take n s = take n s"
  by (induction s arbitrary: n) (auto split: nat.splits)

lemma str_take_rupee: "str_take 2 (rupee @ ''1,500'') = rupee @ ''1''"
  by (simp add: rupee_def is_continuation_def)

subsection \<open>Dates and identifiers\<close>

lemma date_add_days:
  "date_add start (timedelta_days i) = Inr d \<Longrightarrow> d = start + i"
  by (auto simp: date_add_def timedelta_days_def Let_def split: if_splits)

lemma add_events_result:
  "add_events td p itinerary_text start is cal = Inr events \<Longrightarrow>
   events = cal @ map (\<lambda>i. \<lparr>e_name = event_name_text td i, e_begin = start + int i,
                              e_description = event_description_text td p itinerary_text i,
                              e_duration = timedelta_hours 8\<rparr>) is"
proof (induction "is" arbitrary: cal)
  case Nil
  then show ?case by simp
next
  case (Cons i rest)
  then obtain d where d: "date_add start (timedelta_days (int i)) = Inr d"
    by (cases "date_add start (timedelta_days (int i))") auto
  then have "d = start + int i" by (rule date_add_days)
  with d Cons.prems have
    "add_events td p itinerary_text start rest
       (cal @ [\<lparr>e_name = event_name_text td i, e_begin = start + int i,
                 e_description = event_description_text td p itinerary_text i,
                 e_duration = timedelta_hours 8\<rparr>]) = Inr events"
    by simp
  from Cons.IH [OF this] show ?case by simp
qed

lemma add_events_succeeds:
  "1 \<le> start \<Longrightarrow> \<forall>i \<in> set is. start + int i \<le> 3652059 \<Longrightarrow>
   \<exists>events. add_events td p itinerary_text start is cal = Inr events"
  by (induction "is" arbitrary: cal) (auto simp: date_add_def timedelta_days_def Let_def)

lemma calendar_events_shape:
  assumes "calendar_events td p itinerary_text start = Inr events"
  shows "length events = nat (num_days td) \<and>
         (\<forall>i < nat (num_days td).
            e_begin (events ! i) = start + int i \<and> e_duration (events ! i) = 8 * 3600) \<and>
         distinct (map e_begin events)"
proof -
  let ?ev = "\<lambda>i. \<lparr>e_name = event_name_text td i, e_begin = start + int i,
                    e_description = event_description_text td p itinerary_text i,
                    e_duration = timedelta_hours 8\<rparr>"
  from assms have ev: "events = map ?ev [0..<nat (num_days td)]"
    using add_events_result [of td p itinerary_text start "[0..<nat (num_days td)]" "[]" events]
    by (simp add: calendar_events_def)
  have len: "length events = nat (num_days td)" by (simp add: ev)
  have nth: "\<forall>i < nat (num_days td).
            e_begin (events ! i) = start + int i \<and> e_duration (events ! i) = 8 * 3600"
    by (simp add: ev timedelta_hours_def)
  have "map e_begin events = map (\<lambda>i. start + int i) [0..<nat (num_days td)]"
    by (simp add: ev comp_def)
  moreover have "distinct (map (\<lambda>i. start + int i) [0..<nat (num_days td)])"
    by (simp add: distinct_map inj_on_def)
  ultimately have "distinct (map e_begin events)" by simp
  with len nth show ?thesis by blast
qed

lemma calendar_events_succeeds:
  "1 \<le> start \<Longrightarrow> start + num_days td \<le> 3652060 \<Longrightarrow>
   \<exists>events. calendar_events td p itinerary_text start = Inr events"
  unfolding calendar_events_def by (rule add_events_succeeds) auto

lemma length_uuid_hex: "length (uuid_hex u) = 32"
  by (simp add: uuid_hex_def)

lemma take8_str_uuid: "take 8 (str_uuid u) = take 8 (uuid_hex u)"
  by (simp add: str_uuid_def Let_def length_uuid_hex)

lemma length_trip_id: "length (take 8 (str_uuid u)) = 8"
  by (simp add: take8_str_uuid length_uuid_hex)

lemma length_str_uuid: "length (str_uuid u) = 36"
  by (simp add: str_uuid_def Let_def length_uuid_hex)

lemma example_uuid: "str_uuid 0x123e4567e89b42d3a456426614174000 = ''123e4567-e89b-42d3-a456-426614174000''"
  by (simp add: str_uuid_def uuid_hex_def hex_digit_def upt_rec Let_def)

subsection \<open>What the sections leave unchanged\<close>

lemma invoke_session: "invoke w c prompt s = (r, s') \<Longrightarrow> session s' = session s"
  by (auto simp: invoke_def)

lemma llm_invoke_session: "llm_invoke w prompt s = (r, s') \<Longrightarrow> session s' = session s"
  by (auto simp: llm_invoke_def invoke_def split: option.splits)

lemma accommodation_section_session:
  "accommodation_section w td research u s = (r, s') \<Longrightarrow> session s' = session s"
  by (auto simp: accommodation_section_def Let_def dest!: llm_invoke_session
           split: option.splits if_splits prod.splits sum.splits)

lemma activity_section_session:
  "activity_section w td research u s = (r, s') \<Longrightarrow> session s' = session s"
  by (auto simp: activity_section_def dest!: llm_invoke_session
           split: option.splits if_splits prod.splits sum.splits)

lemma dining_section_session:
  "dining_section w td research u s = (r, s') \<Longrightarrow> session s' = session s"
  by (auto simp: dining_section_def dest!: llm_invoke_session
           split: option.splits if_splits prod.splits sum.splits)

lemma transport_section_session:
  "transport_section w td research u s = (r, s') \<Longrightarrow> session s' = session s"
  by (auto simp: transport_section_def dest!: llm_invoke_session
           split: option.splits if_splits prod.splits sum.splits)

lemma bind_run_Inr:
  "bind_run m f s = (Inr y, s') \<longleftrightarrow> (\<exists>x s1. m s = (Inr x, s1) \<and> f x s1 = (Inr y, s'))"
  by (auto simp: bind_run_def split: prod.splits sum.splits)

lemma bind_run_session:
  assumes "\<And>s r s'. m s = (r, s') \<Longrightarrow> session s' = session s"
    and "\<And>x s r s'. f x s = (r, s') \<Longrightarrow> session s' = session s"
    and "bind_run m f s = (r, s')"
  shows "session s' = session s"
proof (cases "m s")
  case (Pair a s1)
  then have 1: "session s1 = session s" using assms(1) by blast
  show ?thesis
  proof (cases a)
    case (Inl e)
    with Pair assms(3) have "s' = s1" by (simp add: bind_run_def)
    with 1 show ?thesis by simp
  next
    case (Inr x)
    with Pair assms(3) have "f x s1 = (r, s')" by (simp add: bind_run_def)
    then have "session s' = session s1" using assms(2) by blast
    with 1 show ?thesis by simp
  qed
qed

lemma return_run_session: "return_run x s = (r, s') \<Longrightarrow> session s' = session s"
  by (simp add: return_run_def)

lemma preferences_section_session:
  "preferences_section w td research u s = (r, s') \<Longrightarrow> session s' = session s"
  unfolding preferences_section_def
  by (erule bind_run_session [rotated 2];
      (erule accommodation_section_session activity_section_session dining_section_session
             transport_section_session return_run_session bind_run_session [rotated 2])+)

text \<open>What a completed preference section has recorded.\<close>

lemma preferences_section_result:
  "preferences_section w td research u s = (Inr p, s') \<longleftrightarrow>
     (\<exists>s1 s2 s3.
        accommodation_section w td research u s = (Inr (selected_accommodation p), s1) \<and>
        activity_section w td research u s1 = (Inr (selected_activities p), s2) \<and>
        dining_section w td research u s2 = (Inr (selected_dining p), s3) \<and>
        transport_section w td research u s3 = (Inr (selected_transport p), s') \<and>
        accommodation p = accommodation_pref u \<and> activities p = activity_pref u \<and>
        dining p = dining_pref u \<and> transportation p = transport_pref u \<and>
        special_requests p = special_requests_input u)"
  by (cases p) (auto simp: preferences_section_def bind_run_Inr return_run_def)

lemma generate_pdf_cases:
  "generate_pdf w html filename flowables s = (g, s1) \<Longrightarrow>
     session s1 = session s \<and> downloads s1 = downloads s \<and>
     (g \<longrightarrow> (\<exists>bytes. files s1 filename = Some bytes \<and>
              bytes = (case weasyprint w html filename of Inr b \<Rightarrow> b
                       | Inl e \<Rightarrow> (case reportlab w filename flowables of Inr b \<Rightarrow> b | Inl e \<Rightarrow> []))))
     \<and> (g \<longleftrightarrow> \<not> (isl (weasyprint w html filename) \<and> isl (reportlab w filename flowables)))"
  by (auto simp: generate_pdf_def split: sum.splits)

lemma document_export_session: "session (document_export w td research p it s) = session s"
  by (auto simp: document_export_def Let_def dest!: generate_pdf_cases
           split: prod.splits bool.splits option.splits)

lemma calendar_export_session: "session (calendar_export w td p it s) = session s"
  by (simp add: calendar_export_def Let_def split: sum.splits)

lemma export_section_session: "session (export_section w td research u p it s) = session s"
  by (simp add: export_section_def Let_def document_export_session calendar_export_session)

lemma geocode_fallback_session:
  "geocode_fallback w d s = (r, s') \<Longrightarrow> session s' = session s"
  by (auto simp: geocode_fallback_def Let_def dest!: invoke_session
           split: prod.splits sum.splits if_splits list.splits option.splits)

lemma get_coordinates_cases:
  "get_coordinates w d s = (r, s') \<Longrightarrow> session s' = session s \<and> (\<exists>c. r = Inr c)"
  by (auto simp: get_coordinates_def dest!: geocode_fallback_session
           split: prod.splits sum.splits option.splits)

lemma map_section_cases:
  "map_section w td s = (r, s') \<Longrightarrow> session s' = session s \<and> r = Inr ()"
  by (auto simp: map_section_def bind_run_def return_run_def dest!: get_coordinates_cases
           split: prod.splits sum.splits option.splits if_splits)

subsection \<open>One execution, and a session\<close>

text \<open>The itinerary section appends one record exactly when the synthesis call returns.\<close>

lemma itinerary_section_cases:
  assumes "itinerary_section w trip_data research u p s = (r, s')"
  shows "(\<exists>td itinerary_text.
            itinerary_clicked u \<and> trip_data = Some td \<and>
            chat w (ChatOpenAI (github_token w)) (planner_input td research p) = Inr itinerary_text \<and>
            r = Inr (Some itinerary_text) \<and>
            session s' = (session s)\<lparr>trip_history := trip_history (session s) @
                            [new_trip_record w td research p itinerary_text]\<rparr>)
         \<or> ((r = Inr None \<or> (\<exists>e. r = Inl e)) \<and> session s' = session s)"
proof (cases "itinerary_clicked u")
  case False
  with assms show ?thesis by (simp add: itinerary_section_def)
next
  case True
  show ?thesis
  proof (cases trip_data)
    case None
    with True assms show ?thesis by (auto simp: itinerary_section_def)
  next
    case (Some td)
    obtain c s1 where inv: "invoke w (ChatOpenAI (github_token w)) (planner_input td research p) s = (c, s1)"
      by (cases "invoke w (ChatOpenAI (github_token w)) (planner_input td research p) s")
    then have s1: "session s1 = session s"
      and c: "c = chat w (ChatOpenAI (github_token w)) (planner_input td research p)"
      by (auto simp: invoke_def)
    show ?thesis
    proof (cases c)
      case (Inl e)
      with True Some inv assms s1 show ?thesis by (auto simp: itinerary_section_def)
    next
      case (Inr itinerary_text)
      define s4 where "s4 = export_section w td research u p itinerary_text
                    (s1\<lparr>session := (session s1)\<lparr>trip_history :=
                               trip_history (session s1) @
                                 [new_trip_record w td research p itinerary_text]\<rparr>\<rparr>)"
      have s4: "session s4 = (session s1)\<lparr>trip_history := trip_history (session s1) @
                                 [new_trip_record w td research p itinerary_text]\<rparr>"
        by (simp add: s4_def export_section_session)
      from True Some inv Inr assms
      have m: "bind_run (map_section w td) (\<lambda>_. return_run (Some itinerary_text)) s4 = (r, s')"
        by (simp add: itinerary_section_def Let_def s4_def)
      obtain r0 s5 where ms: "map_section w td s4 = (r0, s5)" by (cases "map_section w td s4")
      then have "session s5 = session s4" "r0 = Inr ()" using map_section_cases by blast+
      with m ms have "r = Inr (Some itinerary_text)" "session s' = session s4"
        by (auto simp: bind_run_def return_run_def)
      with s4 s1 Inr c True Some show ?thesis by auto
    qed
  qed
qed

lemma research_stage_cases:
  "research_stage w u s = (r, s') \<Longrightarrow>
     trip_history (session s') = trip_history (session s) \<and> (r = Inr False \<longrightarrow> s' = s)"
  by (auto simp: research_stage_def Let_def split: if_splits sum.splits)

lemma session_fresh_namespace: "session (fresh_namespace s) = session s"
  by (simp add: fresh_namespace_def)

lemma synthesized_simps:
  "synthesized (Completed (Some t))" "\<not> synthesized (Completed None)"
  "\<not> synthesized Rerun" "\<not> synthesized (Raised e)"
  by (simp_all add: synthesized_def)

text \<open>An execution of the script either synthesises, and then appends the record of what
  its preference section returned, or leaves the history as it was.\<close>

lemma script_run_cases:
  assumes "script_run w u s0 = (out, s')"
  shows "(\<exists>td research p sp itinerary_text.
            out = Completed (Some itinerary_text) \<and>
            current_trip_data (session s0) = Some td \<and>
            research_results (session s0) = Some research \<and>
            show_preferences (session s0) \<and>
            preferences_section w (Some td) research u (fresh_namespace s0) = (Inr p, sp) \<and>
            chat w (ChatOpenAI (github_token w)) (planner_input td research p) = Inr itinerary_text \<and>
            trip_history (session s') =
              trip_history (session s0) @ [new_trip_record w td research p itinerary_text])
         \<or> (\<not> synthesized out \<and> trip_history (session s') = trip_history (session s0))"
proof -
  obtain r s1 where rs: "research_stage w u (fresh_namespace s0) = (r, s1)"
    by (cases "research_stage w u (fresh_namespace s0)")
  then have h1: "trip_history (session s1) = trip_history (session s0)"
    and same: "r = Inr False \<longrightarrow> s1 = fresh_namespace s0"
    using research_stage_cases [OF rs] by (simp_all add: session_fresh_namespace)
  show ?thesis
  proof (cases "r = Inr False")
    case False
    with rs assms h1 have "\<not> synthesized out \<and> trip_history (session s') = trip_history (session s0)"
      by (cases r; (cases "projr r")?) (auto simp: script_run_def synthesized_simps split: bool.splits)
    then show ?thesis by blast
  next
    case True
    with same have s1: "s1 = fresh_namespace s0" by simp
    show ?thesis
    proof (cases "research_results (session s0)")
      case None
      with True rs assms s1 have "\<not> synthesized out \<and> trip_history (session s') = trip_history (session s0)"
        by (auto simp: script_run_def synthesized_simps session_fresh_namespace)
      then show ?thesis by blast
    next
      case (Some research)
      show ?thesis
      proof (cases "show_preferences (session s0)")
        case False
        with Some True rs assms s1
        have "\<not> synthesized out \<and> trip_history (session s') = trip_history (session s0)"
          by (auto simp: script_run_def synthesized_simps session_fresh_namespace)
        then show ?thesis by blast
      next
        case shown: True
        let ?td = "current_trip_data (session s0)"
        obtain r2 s2 where b: "bind_run (preferences_section w ?td research u)
                 (itinerary_section w ?td research u) (fresh_namespace s0) = (r2, s2)"
          by (cases "bind_run (preferences_section w ?td research u)
                 (itinerary_section w ?td research u) (fresh_namespace s0)")
        with Some True rs assms s1 shown
        have out: "out = (case r2 of Inl e \<Rightarrow> Raised e | Inr it \<Rightarrow> Completed it)" and s': "s' = s2"
          by (auto simp: script_run_def session_fresh_namespace split: sum.splits)
        obtain rp sp where ps: "preferences_section w ?td research u (fresh_namespace s0) = (rp, sp)"
          by (cases "preferences_section w ?td research u (fresh_namespace s0)")
        then have sp: "session sp = session s0"
          using preferences_section_session [OF ps] by (simp add: session_fresh_namespace)
        show ?thesis
        proof (cases rp)
          case (Inl e)
          with ps b have "r2 = Inl e" "s2 = sp" by (auto simp: bind_run_def)
          with out s' sp have "\<not> synthesized out \<and> trip_history (session s') = trip_history (session s0)"
            by (simp add: synthesized_simps)
          then show ?thesis by blast
        next
          case (Inr p)
          with ps b have it: "itinerary_section w ?td research u p sp = (r2, s2)"
            by (auto simp: bind_run_def)
          from itinerary_section_cases [OF it] show ?thesis
          proof
            assume "\<exists>td itinerary_text.
              itinerary_clicked u \<and> ?td = Some td \<and>
              chat w (ChatOpenAI (github_token w)) (planner_input td research p) = Inr itinerary_text \<and>
              r2 = Inr (Some itinerary_text) \<and>
              session s2 = (session sp)\<lparr>trip_history := trip_history (session sp) @
                            [new_trip_record w td research p itinerary_text]\<rparr>"
            then obtain td itinerary_text where
              h: "?td = Some td"
                 "chat w (ChatOpenAI (github_token w)) (planner_input td research p) = Inr itinerary_text"
                 "r2 = Inr (Some itinerary_text)"
                 "session s2 = (session sp)\<lparr>trip_history := trip_history (session sp) @
                            [new_trip_record w td research p itinerary_text]\<rparr>"
              by blast
            with out s' sp Some shown ps Inr
            have "out = Completed (Some itinerary_text) \<and>
              current_trip_data (session s0) = Some td \<and>
              research_results (session s0) = Some research \<and>
              show_preferences (session s0) \<and>
              preferences_section w (Some td) research u (fresh_namespace s0) = (Inr p, sp) \<and>
              chat w (ChatOpenAI (github_token w)) (planner_input td research p) = Inr itinerary_text \<and>
              trip_history (session s') =
                trip_history (session s0) @ [new_trip_record w td research p itinerary_text]"
              by simp
            then show ?thesis by blast
          next
            assume "(r2 = Inr None \<or> (\<exists>e. r2 = Inl e)) \<and> session s2 = session sp"
            with out s' sp
            have "\<not> synthesized out \<and> trip_history (session s') = trip_history (session s0)"
              by (auto simp: synthesized_simps)
            then show ?thesis by blast
          qed
        qed
      qed
    qed
  qed
qed

lemma script_run_recorded:
  assumes "script_run w u s0 = (Completed (Some it), s')"
  shows "\<exists>td research p sp.
           preferences_section w (Some td) research u (fresh_namespace s0) = (Inr p, sp) \<and>
           trip_history (session s') \<noteq> [] \<and>
           last (trip_history (session s')) = new_trip_record w td research p it"
proof -
  from script_run_cases [OF assms] obtain td research p sp where
    "preferences_section w (Some td) research u (fresh_namespace s0) = (Inr p, sp)"
    "trip_history (session s') = trip_history (session s0) @ [new_trip_record w td research p it]"
    by (auto simp: synthesized_simps)
  then have "preferences_section w (Some td) research u (fresh_namespace s0) = (Inr p, sp) \<and>
           trip_history (session s') \<noteq> [] \<and>
           last (trip_history (session s')) = new_trip_record w td research p it"
    by simp
  then show ?thesis by blast
qed

lemma trip_preferences_new: "trip_preferences (new_trip_record w td research p it) = p"
  by (simp add: new_trip_record_def)

lemma run_session_history:
  "run_session steps s = (outs, s') \<Longrightarrow>
   \<exists>new. trip_history (session s') = trip_history (session s) @ new \<and>
         length new = length (filter synthesized outs) \<and>
         (\<forall>r \<in> set new. \<exists>w td research p it. r = new_trip_record w td research p it)"
proof (induction steps arbitrary: s outs s')
  case Nil
  then show ?case by simp
next
  case (Cons step steps)
  obtain w u where step: "step = (w, u)" by (cases step)
  obtain out s1 where r1: "script_run w u s = (out, s1)" by (cases "script_run w u s")
  obtain outs1 s2 where r2: "run_session steps s1 = (outs1, s2)" by (cases "run_session steps s1")
  from Cons.prems step r1 r2 have eq: "outs = out # outs1" "s' = s2" by simp_all
  from Cons.IH [OF r2] obtain new1 where
    n1: "trip_history (session s2) = trip_history (session s1) @ new1"
        "length new1 = length (filter synthesized outs1)"
        "\<forall>r \<in> set new1. \<exists>w td research p it. r = new_trip_record w td research p it"
    by blast
  from script_run_cases [OF r1] show ?case
  proof
    assume "\<exists>td research p sp itinerary_text.
            out = Completed (Some itinerary_text) \<and>
            current_trip_data (session s) = Some td \<and>
            research_results (session s) = Some research \<and>
            show_preferences (session s) \<and>
            preferences_section w (Some td) research u (fresh_namespace s) = (Inr p, sp) \<and>
            chat w (ChatOpenAI (github_token w)) (planner_input td research p) = Inr itinerary_text \<and>
            trip_history (session s1) =
              trip_history (session s) @ [new_trip_record w td research p itinerary_text]"
    then obtain td research p itinerary_text where
      h: "out = Completed (Some itinerary_text)"
         "trip_history (session s1) =
              trip_history (session s) @ [new_trip_record w td research p itinerary_text]"
      by blast
    let ?new = "new_trip_record w td research p itinerary_text # new1"
    have "trip_history (session s') = trip_history (session s) @ ?new"
      using n1 h eq by simp
    moreover have "length ?new = length (filter synthesized outs)"
      using n1 h eq by (simp add: synthesized_simps)
    moreover have "\<forall>r \<in> set ?new. \<exists>w td research p it. r = new_trip_record w td research p it"
      using n1(3) by (simp del: ex_simps) blast
    ultimately show ?thesis by blast
  next
    assume "\<not> synthesized out \<and> trip_history (session s1) = trip_history (session s)"
    then have "trip_history (session s') = trip_history (session s) @ new1"
      "length new1 = length (filter synthesized outs)"
      using n1 eq by simp_all
    with n1(3) show ?thesis by blast
  qed
qed

subsection \<open>The four categories\<close>

lemma accommodation_sentinel:
  "accommodation_pref u = ''No Preference'' \<Longrightarrow>
   accommodation_section w td research u s = (Inr ''No Preference'', s)"
  by (simp add: accommodation_section_def accommodation_descriptions_def)

lemma activity_sentinel:
  "activity_pref u = ''Mix of Everything'' \<Longrightarrow>
   activity_section w td research u s = (Inr [''Mix of Everything''], s)"
  by (simp add: activity_section_def activity_descriptions_def)

lemma dining_sentinel:
  "dining_pref u = ''No Preference'' \<Longrightarrow>
   dining_section w td research u s = (Inr [''No Preference''], s)"
  by (simp add: dining_section_def dining_descriptions_def)

lemma transport_sentinel:
  "transport_pref u = ''No Preference'' \<Longrightarrow>
   transport_section w td research u s = (Inr ''No Preference'', s)"
  by (simp add: transport_section_def transport_descriptions_def)

lemma accommodation_section_selection:
  "accommodation_section w td research u s = (Inr sel, s') \<Longrightarrow>
     accommodation_pref u \<noteq> ''No Preference'' \<Longrightarrow> sel = accommodation_selection u"
  by (auto simp: accommodation_section_def Let_def split: option.splits if_splits prod.splits sum.splits)

lemma activity_section_selection:
  "activity_section w td research u s = (Inr sel, s') \<Longrightarrow>
     sel \<noteq> [] \<and>
     (activity_pref u \<noteq> ''Mix of Everything'' \<longrightarrow>
        sel = (if activity_selection u = [] then [''Option 1''] else activity_selection u))"
  by (auto simp: activity_section_def split: option.splits if_splits prod.splits sum.splits)

lemma dining_section_selection:
  "dining_section w td research u s = (Inr sel, s') \<Longrightarrow>
     sel \<noteq> [] \<and>
     (dining_pref u \<noteq> ''No Preference'' \<longrightarrow>
        sel = (if dining_selection u = [] then [''Option 1''] else dining_selection u))"
  by (auto simp: dining_section_def split: option.splits if_splits prod.splits sum.splits)

lemma transport_section_selection:
  "transport_section w td research u s = (Inr sel, s') \<Longrightarrow>
     transport_pref u \<noteq> ''No Preference'' \<Longrightarrow> sel = transport_selection u"
  by (auto simp: transport_section_def split: option.splits if_splits prod.splits sum.splits)

text \<open>Outside the accommodation section, a recommendation is requested through the
  variable \<^verbatim>\<open>llm\<close>: unbound, the request raises before it is made.\<close>

lemma sections_need_llm:
  assumes "llm s = None"
  shows "map_of activity_descriptions (activity_pref u) \<noteq> None \<Longrightarrow>
           activity_pref u \<noteq> ''Mix of Everything'' \<Longrightarrow>
           activity_section w (Some td) research u s = (Inl (NameError ''llm''), s)"
    and "map_of dining_descriptions (dining_pref u) \<noteq> None \<Longrightarrow>
           dining_pref u \<noteq> ''No Preference'' \<Longrightarrow>
           dining_section w (Some td) research u s = (Inl (NameError ''llm''), s)"
    and "map_of transport_descriptions (transport_pref u) \<noteq> None \<Longrightarrow>
           transport_pref u \<noteq> ''No Preference'' \<Longrightarrow>
           transport_section w (Some td) research u s = (Inl (NameError ''llm''), s)"
  using assms
  by (auto simp: activity_section_def dining_section_def transport_section_def llm_invoke_def)

subsection \<open>The example session, evaluated\<close>

lemma paris_lower: "ascii_lower ''Paris'' = ''paris''"
  by (simp add: ascii_lower_def lower_char_def)

lemmas eval_defs = script_run_def research_stage_def fresh_namespace_def
  preferences_section_def bind_run_def return_run_def accommodation_section_def
  activity_section_def dining_section_def transport_section_def llm_invoke_def invoke_def
  accommodation_descriptions_def activity_descriptions_def dining_descriptions_def
  transport_descriptions_def itinerary_section_def export_section_def
  example_form_def planning_form_def example_world_def rupee_def new_run_def researched_def new_session_def
  paris_lower Let_def

lemma research_run: "script_run example_world example_form new_run =
   (Rerun, researched\<lparr>llm := Some (ChatOpenAI (Some ''ghp_example''))\<rparr>)"
  by (simp add: script_run_def research_stage_def fresh_namespace_def example_world_def example_form_def
        new_run_def truthy_def researched_def example_trip_def new_session_def Let_def)

lemma example_lower: "py_lower (example_world\<lparr>chat := f\<rparr>) = ascii_lower"
  "py_lower example_world = ascii_lower"
  by (simp_all add: example_world_def)

lemma paris_coordinates:
  "py_lower w ''Paris'' = ''paris'' \<Longrightarrow> get_coordinates w ''Paris'' s = (Inr (48.8566, 2.3522), s)"
  by (simp add: get_coordinates_def location_coords_def)

lemma map_section_paris:
  "py_lower w ''Paris'' = ''paris'' \<Longrightarrow> map_section w example_trip s = (Inr (), s)"
  by (simp add: map_section_def example_trip_def paris_coordinates bind_run_def return_run_def
        split: option.splits)

lemma planning_run_outcome:
  "fst (script_run example_world planning_form researched) = Completed (Some example_reply)"
  by (simp add: eval_defs map_section_paris example_reply_def)

lemma planning_run_calls:
  "map snd (calls (snd (script_run example_world planning_form researched))) =
     [accommodation_search_prompt example_trip ''ACCOMMODATIONS OPTIONS: ...''
        (''Mid-range Hotels ('' @ rupee @ ''4,000-15,000 per night)''),
      dining_search_prompt example_trip ''ACCOMMODATIONS OPTIONS: ...''
        (''Budget-Friendly ('' @ rupee @ ''300-1,500 per meal)''),
      planner_input example_trip ''ACCOMMODATIONS OPTIONS: ...''
        \<lparr>accommodation = ''Mid-range Hotels ('' @ rupee @ ''4,000-15,000 per night)'',
         selected_accommodation = ''Option 1'',
         activities = ''Mix of Everything'', selected_activities = [''Mix of Everything''],
         dining = ''Budget-Friendly ('' @ rupee @ ''300-1,500 per meal)'', selected_dining = [''Option 1''],
         transportation = ''No Preference'', selected_transport = ''No Preference'',
         special_requests = []\<rparr>]"
  by (simp add: eval_defs map_section_paris)

lemma planning_run_history:
  "trip_history (session (snd (script_run example_world planning_form researched))) =
     [new_trip_record example_world example_trip ''ACCOMMODATIONS OPTIONS: ...'' example_prefs example_reply]"
  by (simp add: eval_defs map_section_paris example_reply_def example_prefs_def)

lemma no_preference_run_raises:
  "script_run example_world (planning_form\<lparr>accommodation_pref := ''No Preference''\<rparr>) researched =
     (Raised (NameError ''llm''), researched)"
  by (simp add: eval_defs)

lemma sentinel_run_outcome:
  "fst (script_run example_world sentinel_form researched) = Completed (Some example_reply)"
  by (simp add: eval_defs sentinel_form_def map_section_paris example_reply_def)

lemma first_synthesis_run:
  "script_run example_world planning_form (researched\<lparr>llm := Some (ChatOpenAI (Some ''ghp_example''))\<rparr>)
     = (Completed (Some example_reply), planned)"
  by (simp add: eval_defs map_section_paris example_reply_def example_prefs_def planned_def)

lemma second_synthesis_outcome: "fst (script_run example_world planning_form planned) = Completed (Some example_reply)"
  by (simp add: eval_defs map_section_paris example_reply_def planned_def)

lemma example_session_outcomes:
  "fst (run_session example_session new_run) =
     [Rerun, Completed (Some example_reply), Completed (Some example_reply)]"
proof -
  obtain s3 where "script_run example_world planning_form planned = (Completed (Some example_reply), s3)"
    using second_synthesis_outcome by (cases "script_run example_world planning_form planned") simp
  then show ?thesis by (simp add: example_session_def research_run first_synthesis_run)
qed

section \<open>The claims\<close>

text \<open>
  Claim C1. The recommendation call and the recorded selection of a category do not
  depend on the preference label chosen in another category.

  The script does not have this property. The variable \<^verbatim>\<open>llm\<close> that the activity, dining
  and transportation sections call is bound only inside the accommodation section, and
  only when the accommodation label is not \<^verbatim>\<open>"No Preference"\<close> (line 219); the only other
  assignment (line 70) is in a branch that ends the execution with \<^verbatim>\<open>st.rerun()\<close>. The
  two runs below start from the same state, in the same world, with the same dining
  label and the same (empty) dining selection. With mid-range hotels the dining
  recommendation is requested and \<^verbatim>\<open>["Option 1"]\<close> is recorded; with no preference of
  accommodation the dining section raises \<^verbatim>\<open>NameError\<close>: no request is made and nothing is
  recorded.
\<close>

theorem recommendation_depends_on_accommodation_label:
  "dining_pref (planning_form\<lparr>accommodation_pref := ''No Preference''\<rparr>) = dining_pref planning_form \<and>
   dining_selection (planning_form\<lparr>accommodation_pref := ''No Preference''\<rparr>) = dining_selection planning_form \<and>
   fst (script_run example_world planning_form researched) = Completed (Some example_reply) \<and>
   map snd (calls (snd (script_run example_world planning_form researched))) =
     [accommodation_search_prompt example_trip ''ACCOMMODATIONS OPTIONS: ...'' (accommodation_pref planning_form),
      dining_search_prompt example_trip ''ACCOMMODATIONS OPTIONS: ...'' (dining_pref planning_form),
      planner_input example_trip ''ACCOMMODATIONS OPTIONS: ...'' example_prefs] \<and>
   selected_dining (trip_preferences (last (trip_history (session
      (snd (script_run example_world planning_form researched)))))) = [''Option 1''] \<and>
   script_run example_world (planning_form\<lparr>accommodation_pref := ''No Preference''\<rparr>) researched =
     (Raised (NameError ''llm''), researched) \<and>
   calls researched = [] \<and> trip_history (session researched) = []"
proof -
  have 0: "calls researched = [] \<and> trip_history (session researched) = []"
    by (simp add: researched_def new_run_def new_session_def)
  have 1: "map snd (calls (snd (script_run example_world planning_form researched))) =
     [accommodation_search_prompt example_trip ''ACCOMMODATIONS OPTIONS: ...'' (accommodation_pref planning_form),
      dining_search_prompt example_trip ''ACCOMMODATIONS OPTIONS: ...'' (dining_pref planning_form),
      planner_input example_trip ''ACCOMMODATIONS OPTIONS: ...'' example_prefs]"
    using planning_run_calls by (simp add: planning_form_def example_form_def example_prefs_def)
  have 2: "selected_dining (trip_preferences (last (trip_history (session
      (snd (script_run example_world planning_form researched)))))) = [''Option 1'']"
    by (simp add: planning_run_history trip_preferences_new example_prefs_def)
  from 0 1 2 planning_run_outcome no_preference_run_raises show ?thesis by simp
qed

text \<open>
  Claim C2. In each of the four categories, the sentinel label (\<^verbatim>\<open>"No Preference"\<close> for
  accommodation, dining and transportation, \<^verbatim>\<open>"Mix of Everything"\<close> for activity) skips the
  recommendation call, and the selection is the sentinel: the section returns it and
  leaves the state, with the list of requests made, as it was; a run that synthesises
  stores it in the record it appends. The selection of a multi-choice category is a
  list, here the list of the sentinel alone.
\<close>

theorem sentinel_skips_recommendation:
  "(accommodation_pref u = ''No Preference'' \<longrightarrow>
      accommodation_section w td research u s = (Inr ''No Preference'', s)) \<and>
   (activity_pref u = ''Mix of Everything'' \<longrightarrow>
      activity_section w td research u s = (Inr [''Mix of Everything''], s)) \<and>
   (dining_pref u = ''No Preference'' \<longrightarrow>
      dining_section w td research u s = (Inr [''No Preference''], s)) \<and>
   (transport_pref u = ''No Preference'' \<longrightarrow>
      transport_section w td research u s = (Inr ''No Preference'', s)) \<and>
   (script_run w u s0 = (Completed (Some it), s') \<longrightarrow>
      (accommodation_pref u = ''No Preference'' \<longrightarrow>
         selected_accommodation (trip_preferences (last (trip_history (session s')))) = ''No Preference'') \<and>
      (activity_pref u = ''Mix of Everything'' \<longrightarrow>
         selected_activities (trip_preferences (last (trip_history (session s')))) = [''Mix of Everything'']) \<and>
      (dining_pref u = ''No Preference'' \<longrightarrow>
         selected_dining (trip_preferences (last (trip_history (session s')))) = [''No Preference'']) \<and>
      (transport_pref u = ''No Preference'' \<longrightarrow>
         selected_transport (trip_preferences (last (trip_history (session s')))) = ''No Preference''))"
proof -
  have rec: "script_run w u s0 = (Completed (Some it), s') \<longrightarrow>
      (accommodation_pref u = ''No Preference'' \<longrightarrow>
         selected_accommodation (trip_preferences (last (trip_history (session s')))) = ''No Preference'') \<and>
      (activity_pref u = ''Mix of Everything'' \<longrightarrow>
         selected_activities (trip_preferences (last (trip_history (session s')))) = [''Mix of Everything'']) \<and>
      (dining_pref u = ''No Preference'' \<longrightarrow>
         selected_dining (trip_preferences (last (trip_history (session s')))) = [''No Preference'']) \<and>
      (transport_pref u = ''No Preference'' \<longrightarrow>
         selected_transport (trip_preferences (last (trip_history (session s')))) = ''No Preference'')"
  proof
    assume "script_run w u s0 = (Completed (Some it), s')"
    from script_run_recorded [OF this] obtain td research p sp where
      ps: "preferences_section w (Some td) research u (fresh_namespace s0) = (Inr p, sp)"
      and l: "last (trip_history (session s')) = new_trip_record w td research p it"
      by blast
    from ps obtain s1 s2 s3 where
      a: "accommodation_section w (Some td) research u (fresh_namespace s0) = (Inr (selected_accommodation p), s1)"
      and b: "activity_section w (Some td) research u s1 = (Inr (selected_activities p), s2)"
      and c: "dining_section w (Some td) research u s2 = (Inr (selected_dining p), s3)"
      and d: "transport_section w (Some td) research u s3 = (Inr (selected_transport p), sp)"
      unfolding preferences_section_result by blast
    show "(accommodation_pref u = ''No Preference'' \<longrightarrow>
         selected_accommodation (trip_preferences (last (trip_history (session s')))) = ''No Preference'') \<and>
      (activity_pref u = ''Mix of Everything'' \<longrightarrow>
         selected_activities (trip_preferences (last (trip_history (session s')))) = [''Mix of Everything'']) \<and>
      (dining_pref u = ''No Preference'' \<longrightarrow>
         selected_dining (trip_preferences (last (trip_history (session s')))) = [''No Preference'']) \<and>
      (transport_pref u = ''No Preference'' \<longrightarrow>
         selected_transport (trip_preferences (last (trip_history (session s')))) = ''No Preference'')"
      using a b c d
      by (auto simp: l trip_preferences_new accommodation_sentinel activity_sentinel
            dining_sentinel transport_sentinel)
  qed
  show ?thesis
    using rec by (simp add: accommodation_sentinel activity_sentinel dining_sentinel transport_sentinel)
qed

theorem sentinel_skips_recommendation_witness:
  "accommodation_section example_world (Some example_trip) ''research'' sentinel_form researched
     = (Inr ''No Preference'', researched) \<and>
   activity_section example_world (Some example_trip) ''research'' sentinel_form researched
     = (Inr [''Mix of Everything''], researched) \<and>
   dining_section example_world (Some example_trip) ''research'' sentinel_form researched
     = (Inr [''No Preference''], researched) \<and>
   transport_section example_world (Some example_trip) ''research'' sentinel_form researched
     = (Inr ''No Preference'', researched) \<and>
   fst (script_run example_world sentinel_form researched) = Completed (Some example_reply) \<and>
   selected_accommodation (trip_preferences (last (trip_history (session
      (snd (script_run example_world sentinel_form researched)))))) = ''No Preference'' \<and>
   selected_activities (trip_preferences (last (trip_history (session
      (snd (script_run example_world sentinel_form researched)))))) = [''Mix of Everything'']"
proof -
  have u: "accommodation_pref sentinel_form = ''No Preference''"
    "activity_pref sentinel_form = ''Mix of Everything''"
    "dining_pref sentinel_form = ''No Preference''"
    "transport_pref sentinel_form = ''No Preference''"
    by (simp_all add: sentinel_form_def)
  have r: "script_run example_world sentinel_form researched =
     (Completed (Some example_reply), snd (script_run example_world sentinel_form researched))"
    using sentinel_run_outcome by (cases "script_run example_world sentinel_form researched") simp
  show ?thesis
    using sentinel_skips_recommendation [of sentinel_form example_world "Some example_trip"
        "''research''" researched researched example_reply
        "snd (script_run example_world sentinel_form researched)"] u r sentinel_run_outcome
    by simp
qed

text \<open>
  Claim C3. In the activity and the dining section, a selection that is returned is
  never empty; when the recommendation was requested (the label is not the sentinel)
  and the multi-select is empty, it is \<^verbatim>\<open>["Option 1"]\<close>. The same holds of the selections
  stored in the record of a run that synthesises.
\<close>

theorem empty_multiselect_defaults_to_option_1:
  "(activity_section w td research u s = (Inr sel, s1) \<longrightarrow>
      sel \<noteq> [] \<and>
      (activity_pref u \<noteq> ''Mix of Everything'' \<and> activity_selection u = [] \<longrightarrow> sel = [''Option 1''])) \<and>
   (dining_section w td research u s = (Inr sel, s1) \<longrightarrow>
      sel \<noteq> [] \<and>
      (dining_pref u \<noteq> ''No Preference'' \<and> dining_selection u = [] \<longrightarrow> sel = [''Option 1''])) \<and>
   (script_run w u s0 = (Completed (Some it), s') \<longrightarrow>
      selected_activities (trip_preferences (last (trip_history (session s')))) \<noteq> [] \<and>
      selected_dining (trip_preferences (last (trip_history (session s')))) \<noteq> [] \<and>
      (activity_pref u \<noteq> ''Mix of Everything'' \<and> activity_selection u = [] \<longrightarrow>
         selected_activities (trip_preferences (last (trip_history (session s')))) = [''Option 1'']) \<and>
      (dining_pref u \<noteq> ''No Preference'' \<and> dining_selection u = [] \<longrightarrow>
         selected_dining (trip_preferences (last (trip_history (session s')))) = [''Option 1'']))"
proof -
  have rec: "script_run w u s0 = (Completed (Some it), s') \<longrightarrow>
      selected_activities (trip_preferences (last (trip_history (session s')))) \<noteq> [] \<and>
      selected_dining (trip_preferences (last (trip_history (session s')))) \<noteq> [] \<and>
      (activity_pref u \<noteq> ''Mix of Everything'' \<and> activity_selection u = [] \<longrightarrow>
         selected_activities (trip_preferences (last (trip_history (session s')))) = [''Option 1'']) \<and>
      (dining_pref u \<noteq> ''No Preference'' \<and> dining_selection u = [] \<longrightarrow>
         selected_dining (trip_preferences (last (trip_history (session s')))) = [''Option 1''])"
  proof
    assume "script_run w u s0 = (Completed (Some it), s')"
    from script_run_recorded [OF this] obtain td research p sp where
      ps: "preferences_section w (Some td) research u (fresh_namespace s0) = (Inr p, sp)"
      and l: "last (trip_history (session s')) = new_trip_record w td research p it"
      by blast
    from ps obtain s1 s2 s3 where
      b: "activity_section w (Some td) research u s1 = (Inr (selected_activities p), s2)"
      and c: "dining_section w (Some td) research u s2 = (Inr (selected_dining p), s3)"
      unfolding preferences_section_result by blast
    show "selected_activities (trip_preferences (last (trip_history (session s')))) \<noteq> [] \<and>
      selected_dining (trip_preferences (last (trip_history (session s')))) \<noteq> [] \<and>
      (activity_pref u \<noteq> ''Mix of Everything'' \<and> activity_selection u = [] \<longrightarrow>
         selected_activities (trip_preferences (last (trip_history (session s')))) = [''Option 1'']) \<and>
      (dining_pref u \<noteq> ''No Preference'' \<and> dining_selection u = [] \<longrightarrow>
         selected_dining (trip_preferences (last (trip_history (session s')))) = [''Option 1''])"
      using activity_section_selection [OF b] dining_section_selection [OF c]
      by (simp add: l trip_preferences_new)
  qed
  have act: "activity_section w td research u s = (Inr sel, s1) \<longrightarrow>
      sel \<noteq> [] \<and>
      (activity_pref u \<noteq> ''Mix of Everything'' \<and> activity_selection u = [] \<longrightarrow> sel = [''Option 1''])"
    using activity_section_selection [of w td research u s sel s1] by auto
  have din: "dining_section w td research u s = (Inr sel, s1) \<longrightarrow>
      sel \<noteq> [] \<and>
      (dining_pref u \<noteq> ''No Preference'' \<and> dining_selection u = [] \<longrightarrow> sel = [''Option 1''])"
    using dining_section_selection [of w td research u s sel s1] by auto
  from act din rec show ?thesis by blast
qed

theorem empty_multiselect_defaults_to_option_1_witness:
  "dining_pref planning_form \<noteq> ''No Preference'' \<and> dining_selection planning_form = [] \<and>
   fst (script_run example_world planning_form researched) = Completed (Some example_reply) \<and>
   selected_dining (trip_preferences (last (trip_history (session
      (snd (script_run example_world planning_form researched)))))) = [''Option 1''] \<and>
   selected_activities (trip_preferences (last (trip_history (session
      (snd (script_run example_world planning_form researched)))))) \<noteq> []"
proof -
  have u: "dining_pref planning_form \<noteq> ''No Preference''" "dining_selection planning_form = []"
    by (simp_all add: planning_form_def example_form_def)
  have r: "script_run example_world planning_form researched =
     (Completed (Some example_reply), snd (script_run example_world planning_form researched))"
    using planning_run_outcome by (cases "script_run example_world planning_form researched") simp
  show ?thesis
    using empty_multiselect_defaults_to_option_1 [of example_world "Some example_trip" "''research''"
        planning_form researched "[''Option 1'']" researched researched example_reply
        "snd (script_run example_world planning_form researched)"] u r planning_run_outcome
    by simp
qed

text \<open>
  Claim C4. For every destination whose lowercase form, \<^verbatim>\<open>destination_name.lower()\<close>,
  contains a key of the coordinate table, \<open>get_coordinates\<close> returns the pair stored for
  the first such key in the order of the table. The state is returned as it was: no
  completion is requested of the model. The lowercase form is Python's, whatever the
  characters of the destination; nothing else of the outside world enters the result.
\<close>

theorem coordinate_lookup_table_hit:
  assumes "\<exists>k \<in> set (map fst location_coords). str_contains k (py_lower w d)"
  shows "\<exists>before key c rest.
           location_coords = before @ (key, c) # rest \<and>
           str_contains key (py_lower w d) \<and>
           (\<forall>k \<in> set (map fst before). \<not> str_contains k (py_lower w d)) \<and>
           get_coordinates w d s = (Inr c, s)"
proof -
  from scan_coords_split [OF assms] obtain before key c rest where
    h: "location_coords = before @ (key, c) # rest" "str_contains key (py_lower w d)"
       "\<forall>k \<in> set (map fst before). \<not> str_contains k (py_lower w d)"
    by blast
  then have "scan_coords location_coords (py_lower w d) = Some c"
    by (rule scan_coords_first)
  then have "get_coordinates w d s = (Inr c, s)"
    by (simp add: get_coordinates_def)
  with h show ?thesis by blast
qed

text \<open>The example of the specification: \<^verbatim>\<open>"Visiting GOA next month"\<close>.\<close>

theorem coordinate_lookup_table_hit_witness:
  "(\<exists>k \<in> set (map fst location_coords). str_contains k (py_lower example_world ''Visiting GOA next month'')) \<and>
   get_coordinates example_world ''Visiting GOA next month'' new_run = (Inr (15.2993, 74.1240), new_run)"
proof -
  have hyp: "\<exists>k \<in> set (map fst location_coords). str_contains k (py_lower example_world ''Visiting GOA next month'')"
    using goa_scan_coords scan_coords_None [of location_coords "''visiting goa next month''"]
    by (auto simp: goa_lowercase example_lower)
  from coordinate_lookup_table_hit [OF hyp, of new_run]
  obtain before key c rest where
    h: "location_coords = before @ (key, c) # rest"
       "str_contains key (py_lower example_world ''Visiting GOA next month'')"
       "\<forall>k \<in> set (map fst before). \<not> str_contains k (py_lower example_world ''Visiting GOA next month'')"
    and r: "get_coordinates example_world ''Visiting GOA next month'' new_run = (Inr c, new_run)"
    by blast
  from h have "scan_coords location_coords (py_lower example_world ''Visiting GOA next month'') = Some c"
    by (rule scan_coords_first)
  then have "c = (15.2993, 74.1240)" using goa_scan_coords by (simp add: goa_lowercase example_lower)
  with r hyp show ?thesis by simp
qed



text \<open>
  Claim C6. A calendar export that succeeds (the \<^verbatim>\<open>ics\<close> package is importable and no
  date overflows) offers one calendar file, the serialisation of exactly \<open>num_days\<close>
  events; event \<open>i\<close>, for \<open>i\<close> from \<open>0\<close> to \<open>num_days - 1\<close>, begins on today's date plus
  \<open>i\<close> days and lasts 8 hours, so the dates are distinct.
\<close>

theorem calendar_export_events:
  assumes "ics_available w"
    and "calendar_events td p itinerary_text (today w) = Inr events"
  shows "(\<exists>d. downloads (calendar_export w td p itinerary_text s) = downloads s @ [d] \<and>
              data d = calendar_str w events \<and> mime d = ''text/calendar'') \<and>
         length events = nat (num_days td) \<and>
         (\<forall>i < nat (num_days td).
            e_begin (events ! i) = today w + int i \<and> e_duration (events ! i) = 8 * 3600) \<and>
         distinct (map e_begin events)"
proof -
  from assms have
    "downloads (calendar_export w td p itinerary_text s) =
       downloads s @ [\<lparr>label = [CHR 0xF0, CHR 0x9F, CHR 0x93, CHR 0xA5] @ '' Download Calendar'',
                        data = calendar_str w events,
                        file_name = ics_filename td (take 8 (str_uuid (uuid4 w 792))),
                        mime = ''text/calendar''\<rparr>]"
    by (simp add: calendar_export_def Let_def)
  then have "\<exists>d. downloads (calendar_export w td p itinerary_text s) = downloads s @ [d] \<and>
              data d = calendar_str w events \<and> mime d = ''text/calendar''"
    by simp
  with calendar_events_shape [OF assms(2)] show ?thesis by blast
qed

theorem calendar_export_events_witness:
  "ics_available example_world \<and>
   (\<exists>events. calendar_events example_trip example_prefs ''Day 1: ...'' (today example_world) = Inr events \<and>
      length events = 5 \<and>
      e_begin (events ! 0) = 739252 \<and> e_begin (events ! 4) = 739256 \<and>
      e_duration (events ! 0) = 28800 \<and> e_duration (events ! 4) = 28800 \<and>
      distinct (map e_begin events) \<and>
      map data (downloads (calendar_export example_world example_trip example_prefs ''Day 1: ...'' new_run))
        = [calendar_str example_world events])"
proof -
  have t: "today example_world = 739252" and a: "ics_available example_world"
    by (simp_all add: example_world_def)
  have "\<exists>events. calendar_events example_trip example_prefs ''Day 1: ...'' (today example_world) = Inr events"
    unfolding t by (rule calendar_events_succeeds) (simp_all add: example_trip_def)
  then obtain events where
    ev: "calendar_events example_trip example_prefs ''Day 1: ...'' (today example_world) = Inr events"
    by blast
  have n: "nat (num_days example_trip) = 5" by (simp add: example_trip_def)
  from calendar_export_events [OF a ev, of new_run] have
    dl: "\<exists>d. downloads (calendar_export example_world example_trip example_prefs ''Day 1: ...'' new_run)
            = downloads new_run @ [d] \<and> data d = calendar_str example_world events \<and>
            mime d = ''text/calendar''"
    and len: "length events = nat (num_days example_trip)"
    and nth: "\<forall>i < nat (num_days example_trip).
                e_begin (events ! i) = today example_world + int i \<and>
                e_duration (events ! i) = 8 * 3600"
    and dist: "distinct (map e_begin events)"
    by blast+
  have i0: "(0::nat) < nat (num_days example_trip)" and i4: "(4::nat) < nat (num_days example_trip)"
    by (simp_all add: n)
  from nth i0 have e0: "e_begin (events ! 0) = today example_world + int 0 \<and>
      e_duration (events ! 0) = 8 * 3600"
    by blast
  from nth i4 have e4: "e_begin (events ! 4) = today example_world + int 4 \<and>
      e_duration (events ! 4) = 8 * 3600"
    by blast
  from dl have d: "map data (downloads (calendar_export example_world example_trip example_prefs
      ''Day 1: ...'' new_run)) = [calendar_str example_world events]"
    by (auto simp: new_run_def)
  from len n have "length events = 5" by simp
  with ev e0 e4 dist d a t show ?thesis by auto
qed

text \<open>
  Claim C7. The history is append-only. Over any sequence of executions of the script,
  the history at the end is the history at the start followed by one new record for
  each execution that synthesised an itinerary, in order; a session that starts with
  an empty history ends with as many records as it had successful syntheses.
\<close>

theorem trip_history_append_only:
  assumes "run_session steps s = (outs, s')"
  shows "(\<exists>new. trip_history (session s') = trip_history (session s) @ new \<and>
                length new = length (filter synthesized outs)) \<and>
         (trip_history (session s) = [] \<longrightarrow>
            length (trip_history (session s')) = length (filter synthesized outs))"
proof -
  from run_session_history [OF assms] obtain new where
    n: "trip_history (session s') = trip_history (session s) @ new"
       "length new = length (filter synthesized outs)"
    by blast
  then have "trip_history (session s) = [] \<longrightarrow>
            length (trip_history (session s')) = length (filter synthesized outs)"
    by simp
  with n show ?thesis by blast
qed

text \<open>A research run followed by two syntheses.\<close>

theorem trip_history_append_only_witness:
  "fst (run_session example_session new_run) =
     [Rerun, Completed (Some example_reply), Completed (Some example_reply)] \<and>
   trip_history (session new_run) = [] \<and>
   length (trip_history (session (snd (run_session example_session new_run)))) = 2"
proof -
  have r: "run_session example_session new_run =
     ([Rerun, Completed (Some example_reply), Completed (Some example_reply)],
      snd (run_session example_session new_run))"
    using example_session_outcomes by (cases "run_session example_session new_run") simp
  have e: "trip_history (session new_run) = []"
    by (simp add: new_run_def new_session_def)
  from trip_history_append_only [OF r] e
  have "length (trip_history (session (snd (run_session example_session new_run)))) = 2"
    by (simp add: synthesized_simps)
  with example_session_outcomes e show ?thesis by simp
qed

text \<open>
  Claim C8. Every document export offers exactly one download. Its media type is
  \<^verbatim>\<open>application/pdf\<close> when WeasyPrint or ReportLab wrote the file, and its content is
  then what that renderer wrote; it is \<^verbatim>\<open>text/plain\<close>, with the plain-text document as
  content, when both raised.
\<close>

theorem document_export_one_artifact:
  "\<exists>d. downloads (document_export w td research p itinerary_text s) = downloads s @ [d] \<and>
        mime d =
          (if isl (weasyprint w (html_content td research p itinerary_text (strftime_now w 648))
                     (pdf_filename td (take 8 (str_uuid (uuid4 w 600))))) \<and>
              isl (reportlab w (pdf_filename td (take 8 (str_uuid (uuid4 w 600))))
                     (story td research p itinerary_text))
           then ''text/plain'' else ''application/pdf'') \<and>
        data d =
          (case weasyprint w (html_content td research p itinerary_text (strftime_now w 648))
                  (pdf_filename td (take 8 (str_uuid (uuid4 w 600)))) of
             Inr bytes \<Rightarrow> bytes
           | Inl weasy_error \<Rightarrow>
               (case reportlab w (pdf_filename td (take 8 (str_uuid (uuid4 w 600))))
                       (story td research p itinerary_text) of
                  Inr bytes \<Rightarrow> bytes
                | Inl reportlab_error \<Rightarrow>
                    formatted_content td research p itinerary_text (strftime_now w 762)))"
proof -
  let ?html = "html_content td research p itinerary_text (strftime_now w 648)"
  let ?fn = "pdf_filename td (take 8 (str_uuid (uuid4 w 600)))"
  let ?st = "story td research p itinerary_text"
  obtain g s1 where g: "generate_pdf w ?html ?fn ?st s = (g, s1)"
    by (cases "generate_pdf w ?html ?fn ?st s")
  show ?thesis
  proof (cases "weasyprint w ?html ?fn")
    case (Inr bytes)
    with g have "g" "s1 = s\<lparr>files := (files s)(?fn \<mapsto> bytes)\<rparr>"
      by (auto simp: generate_pdf_def)
    with g Inr show ?thesis by (simp add: document_export_def Let_def)
  next
    case (Inl e1)
    show ?thesis
    proof (cases "reportlab w ?fn ?st")
      case (Inr bytes)
      with g Inl have "g" "s1 = s\<lparr>files := (files s)(?fn \<mapsto> bytes)\<rparr>"
        by (auto simp: generate_pdf_def)
      with g Inl Inr show ?thesis by (simp add: document_export_def Let_def)
    next
      case (Inl e2)
      with g \<open>weasyprint w ?html ?fn = Inl e1\<close> have "\<not> g" "s1 = s"
        by (auto simp: generate_pdf_def)
      with g Inl \<open>weasyprint w ?html ?fn = Inl e1\<close> show ?thesis
        by (simp add: document_export_def Let_def)
    qed
  qed
qed

text \<open>No renderer installed, and ReportLab alone installed.\<close>

theorem document_export_one_artifact_witness:
  "map mime (downloads (document_export example_world example_trip ''research'' example_prefs
                ''Day 1: ...'' new_run)) = [''text/plain''] \<and>
   map mime (downloads (document_export
                (example_world\<lparr>reportlab := (\<lambda>filename flowables. Inr ''%PDF-1.4 ...'')\<rparr>)
                example_trip ''research'' example_prefs ''Day 1: ...'' new_run)) = [''application/pdf''] \<and>
   map data (downloads (document_export
                (example_world\<lparr>reportlab := (\<lambda>filename flowables. Inr ''%PDF-1.4 ...'')\<rparr>)
                example_trip ''research'' example_prefs ''Day 1: ...'' new_run)) = [''%PDF-1.4 ...'']"
proof -
  let ?w = "example_world\<lparr>reportlab := (\<lambda>filename flowables. Inr ''%PDF-1.4 ...'')\<rparr>"
  have e: "downloads new_run = []" by (simp add: new_run_def)
  from document_export_one_artifact [of example_world example_trip "''research''" example_prefs
      "''Day 1: ...''" new_run]
  have 1: "map mime (downloads (document_export example_world example_trip ''research'' example_prefs
                ''Day 1: ...'' new_run)) = [''text/plain'']"
    by (auto simp: e example_world_def)
  from document_export_one_artifact [of ?w example_trip "''research''" example_prefs
      "''Day 1: ...''" new_run]
  have 2: "map mime (downloads (document_export ?w example_trip ''research'' example_prefs
                ''Day 1: ...'' new_run)) = [''application/pdf'']"
    "map data (downloads (document_export ?w example_trip ''research'' example_prefs
                ''Day 1: ...'' new_run)) = [''%PDF-1.4 ...'']"
    by (auto simp: e example_world_def)
  from 1 2 show ?thesis by simp
qed

text \<open>
  Claim C9, as stated: when the recommendation call of a category was issued, the
  selection of a single-choice category is one of \<^verbatim>\<open>Option 1\<close>, \<^verbatim>\<open>Option 2\<close>, \<^verbatim>\<open>Option 3\<close>.
  The accommodation widget offers a fourth entry, \<^verbatim>\<open>"Let AI decide based on budget"\<close>
  (line 260), and the transportation widget \<^verbatim>\<open>"Combination of options"\<close> (line 495);
  a user who picks it has the recommendation requested and that entry recorded.
\<close>

theorem selection_outside_three_options_counterexample:
  "accommodation_selection (planning_form\<lparr>accommodation_selection := ''Let AI decide based on budget''\<rparr>)
      \<in> set accommodation_choices \<and>
   fst (accommodation_section example_world (Some example_trip) ''research''
      (planning_form\<lparr>accommodation_selection := ''Let AI decide based on budget''\<rparr>) researched)
     = Inr ''Let AI decide based on budget'' \<and>
   map snd (calls (snd (accommodation_section example_world (Some example_trip) ''research''
      (planning_form\<lparr>accommodation_selection := ''Let AI decide based on budget''\<rparr>) researched)))
     = [accommodation_search_prompt example_trip ''research''
          (''Mid-range Hotels ('' @ rupee @ ''4,000-15,000 per night)'')] \<and>
   ''Let AI decide based on budget'' \<notin> set [''Option 1'', ''Option 2'', ''Option 3'']"
  by (simp add: eval_defs accommodation_choices_def)

text \<open>
  Claim C9, amended. When the recommendation call of a category was issued and has
  returned, the recorded selection is among the entries its widget offers: one of
  \<^verbatim>\<open>Option 1\<close>, \<^verbatim>\<open>Option 2\<close>, \<^verbatim>\<open>Option 3\<close> or the fourth entry of the widget for accommodation
  and transportation, and a non-empty list of entries among \<^verbatim>\<open>Option 1\<close>, \<^verbatim>\<open>Option 2\<close>,
  \<^verbatim>\<open>Option 3\<close> for activity and dining.
\<close>

theorem selection_among_offered_options:
  assumes "widget_contract u"
  shows "(accommodation_pref u \<noteq> ''No Preference'' \<and>
          accommodation_section w td research u s = (Inr sel1, s1) \<longrightarrow>
            sel1 \<in> {''Option 1'', ''Option 2'', ''Option 3'', ''Let AI decide based on budget''}) \<and>
         (transport_pref u \<noteq> ''No Preference'' \<and>
          transport_section w td research u s = (Inr sel1, s1) \<longrightarrow>
            sel1 \<in> {''Option 1'', ''Option 2'', ''Option 3'', ''Combination of options''}) \<and>
         (activity_pref u \<noteq> ''Mix of Everything'' \<and>
          activity_section w td research u s = (Inr sel, s1) \<longrightarrow>
            sel \<noteq> [] \<and> set sel \<subseteq> {''Option 1'', ''Option 2'', ''Option 3''}) \<and>
         (dining_pref u \<noteq> ''No Preference'' \<and>
          dining_section w td research u s = (Inr sel, s1) \<longrightarrow>
            sel \<noteq> [] \<and> set sel \<subseteq> {''Option 1'', ''Option 2'', ''Option 3''})"
proof -
  from assms have c:
    "accommodation_selection u \<in> {''Option 1'', ''Option 2'', ''Option 3'', ''Let AI decide based on budget''}"
    "transport_selection u \<in> {''Option 1'', ''Option 2'', ''Option 3'', ''Combination of options''}"
    "set (activity_selection u) \<subseteq> {''Option 1'', ''Option 2'', ''Option 3''}"
    "set (dining_selection u) \<subseteq> {''Option 1'', ''Option 2'', ''Option 3''}"
    by (simp_all add: widget_contract_def accommodation_choices_def transport_choices_def
          activity_choices_def dining_choices_def)
  have 1: "accommodation_pref u \<noteq> ''No Preference'' \<and>
          accommodation_section w td research u s = (Inr sel1, s1) \<longrightarrow>
            sel1 \<in> {''Option 1'', ''Option 2'', ''Option 3'', ''Let AI decide based on budget''}"
    using accommodation_section_selection [of w td research u s sel1 s1] c(1) by blast
  have 2: "transport_pref u \<noteq> ''No Preference'' \<and>
          transport_section w td research u s = (Inr sel1, s1) \<longrightarrow>
            sel1 \<in> {''Option 1'', ''Option 2'', ''Option 3'', ''Combination of options''}"
    using transport_section_selection [of w td research u s sel1 s1] c(2) by blast
  have 3: "activity_pref u \<noteq> ''Mix of Everything'' \<and>
          activity_section w td research u s = (Inr sel, s1) \<longrightarrow>
            sel \<noteq> [] \<and> set sel \<subseteq> {''Option 1'', ''Option 2'', ''Option 3''}"
  proof
    assume a: "activity_pref u \<noteq> ''Mix of Everything'' \<and>
          activity_section w td research u s = (Inr sel, s1)"
    then have "sel \<noteq> []" "sel = (if activity_selection u = [] then [''Option 1''] else activity_selection u)"
      using activity_section_selection [of w td research u s sel s1] by simp_all
    with c(3) show "sel \<noteq> [] \<and> set sel \<subseteq> {''Option 1'', ''Option 2'', ''Option 3''}"
      by (cases "activity_selection u = []") simp_all
  qed
  have 4: "dining_pref u \<noteq> ''No Preference'' \<and>
          dining_section w td research u s = (Inr sel, s1) \<longrightarrow>
            sel \<noteq> [] \<and> set sel \<subseteq> {''Option 1'', ''Option 2'', ''Option 3''}"
  proof
    assume a: "dining_pref u \<noteq> ''No Preference'' \<and>
          dining_section w td research u s = (Inr sel, s1)"
    then have "sel \<noteq> []" "sel = (if dining_selection u = [] then [''Option 1''] else dining_selection u)"
      using dining_section_selection [of w td research u s sel s1] by simp_all
    with c(4) show "sel \<noteq> [] \<and> set sel \<subseteq> {''Option 1'', ''Option 2'', ''Option 3''}"
      by (cases "dining_selection u = []") simp_all
  qed
  from 1 2 3 4 show ?thesis by blast
qed

theorem selection_among_offered_options_witness:
  "widget_contract planning_form \<and>
   accommodation_pref planning_form \<noteq> ''No Preference'' \<and>
   fst (accommodation_section example_world (Some example_trip) ''research'' planning_form researched)
     = Inr ''Option 1'' \<and>
   dining_pref planning_form \<noteq> ''No Preference'' \<and>
   fst (dining_section example_world (Some example_trip) ''research'' planning_form
          (researched\<lparr>llm := Some (ChatOpenAI (Some ''ghp_example''))\<rparr>))
     = Inr [''Option 1''] \<and>
   set [''Option 1''] \<subseteq> {''Option 1'', ''Option 2'', ''Option 3''}"
proof -
  have c: "widget_contract planning_form"
    by (simp add: widget_contract_def planning_form_def example_form_def accommodation_choices_def
          activity_choices_def dining_choices_def transport_choices_def)
  have a: "accommodation_pref planning_form \<noteq> ''No Preference''"
    "dining_pref planning_form \<noteq> ''No Preference''"
    by (simp_all add: planning_form_def example_form_def)
  have 1: "fst (accommodation_section example_world (Some example_trip) ''research'' planning_form researched)
     = Inr ''Option 1''"
    by (simp add: eval_defs)
  have 2: "fst (dining_section example_world (Some example_trip) ''research'' planning_form
          (researched\<lparr>llm := Some (ChatOpenAI (Some ''ghp_example''))\<rparr>)) = Inr [''Option 1'']"
    by (simp add: eval_defs)
  from selection_among_offered_options [OF c, of example_world "Some example_trip" "''research''"
      "researched\<lparr>llm := Some (ChatOpenAI (Some ''ghp_example''))\<rparr>" "''Option 1''"
      "snd (dining_section example_world (Some example_trip) ''research'' planning_form
          (researched\<lparr>llm := Some (ChatOpenAI (Some ''ghp_example''))\<rparr>))" "[''Option 1'']"] 2 a
  have "set [''Option 1''] \<subseteq> {''Option 1'', ''Option 2'', ''Option 3''}"
    by (metis prod.collapse)
  with c a 1 2 show ?thesis by blast
qed

text \<open>
  Claim C10. The identifier of every trip record is 8 characters long: the first 8
  characters of the 36-character text of a UUID. This holds of the record a synthesis
  builds, and of every record of the history of a session.
\<close>

theorem trip_id_length:
  "length (trip_id (new_trip_record w td research p itinerary_text)) = 8 \<and>
   trip_id (new_trip_record w td research p itinerary_text) = take 8 (str_uuid (uuid4 w 569)) \<and>
   length (str_uuid (uuid4 w 569)) = 36 \<and>
   (run_session steps new_run = (outs, s') \<longrightarrow>
      (\<forall>r \<in> set (trip_history (session s')). length (trip_id r) = 8))"
proof -
  have id: "\<And>w td research p it. length (trip_id (new_trip_record w td research p it)) = 8"
    using length_trip_id by (simp add: new_trip_record_def del: length_take)
  have "run_session steps new_run = (outs, s') \<longrightarrow>
      (\<forall>r \<in> set (trip_history (session s')). length (trip_id r) = 8)"
  proof
    assume "run_session steps new_run = (outs, s')"
    from run_session_history [OF this] obtain new where
      "trip_history (session s') = trip_history (session new_run) @ new"
      "\<forall>r \<in> set new. \<exists>w td research p it. r = new_trip_record w td research p it"
      by blast
    then show "\<forall>r \<in> set (trip_history (session s')). length (trip_id r) = 8"
      using id by (auto simp: new_run_def new_session_def)
  qed
  then show ?thesis
    by (simp add: id length_str_uuid) (simp add: new_trip_record_def)
qed

theorem trip_id_length_witness:
  "fst (run_session example_session new_run) =
     [Rerun, Completed (Some example_reply), Completed (Some example_reply)] \<and>
   map trip_id (trip_history (session (snd (run_session example_session new_run)))) =
     [''123e4567'', ''123e4567''] \<and>
   list_all (\<lambda>r. length (trip_id r) = 8) (trip_history (session (snd (run_session example_session new_run))))"
proof -
  have r: "run_session example_session new_run =
     (fst (run_session example_session new_run), snd (run_session example_session new_run))"
    by simp
  from trip_id_length [of example_world example_trip "''research''" example_prefs example_reply
        example_session "fst (run_session example_session new_run)"
        "snd (run_session example_session new_run)"] r
  have all: "\<forall>r \<in> set (trip_history (session (snd (run_session example_session new_run)))).
               length (trip_id r) = 8"
    by blast
  obtain s3 where s3: "script_run example_world planning_form planned = (Completed (Some example_reply), s3)"
    using second_synthesis_outcome by (cases "script_run example_world planning_form planned") simp
  from script_run_cases [OF s3] obtain td research p where
    h: "trip_history (session s3) = trip_history (session planned) @
          [new_trip_record example_world td research p example_reply]"
    by (auto simp: synthesized_simps)
  have "snd (run_session example_session new_run) = s3"
    using s3 by (simp add: example_session_def research_run first_synthesis_run)
  then have ids: "map trip_id (trip_history (session (snd (run_session example_session new_run)))) =
     [''123e4567'', ''123e4567'']"
    using h by (simp add: planned_def new_trip_record_def example_world_def example_uuid)
  from all ids example_session_outcomes show ?thesis by (simp add: list_all_iff)
qed

end
